theory Spec2Isabelle
  imports Complex_Main
begin

section \<open>Data model\<close>

text \<open>
  The fields of the builder's \<open>types.Library\<close> that the extractor reads.
\<close>

record library =
  Name :: string
  RealName :: string
  Version :: string
  Folder :: string
  Archs :: "string list"

text \<open>
  One entry of \<open>library_index.json\<close> (\<open>indexLibrary\<close>); \<open>IdxVersion\<close> is the
  \<open>Version\<close> field of the entry, \<open>Size\<close> an \<open>int64\<close>.
\<close>

record indexLibrary =
  LibraryName :: string
  IdxVersion :: string
  Author :: string
  Maintainer :: string
  License :: string
  Sentence :: string
  Paragraph :: string
  Website :: string
  Category :: string
  Architectures :: "string list"
  Types :: "string list"
  Requires :: "string list"
  URL :: string
  ArchiveFileName :: string
  Size :: int
  Checksum :: string
  SupportLevel :: string

text \<open>
  How the process ends: \<open>os.Exit n\<close>, or a run-time panic (an index out of range).
\<close>

datatype abort = Exit nat | Panic

text \<open>
  What the process does to the outside, in program order: text on standard output or
  standard error, the usage message of \<open>flag.Usage\<close>, a symbolic link, a file written,
  a path removed, and a run of the builder (\<open>Build\<close>: the board, the sketch, the
  libraries the run imported and its error).
\<close>

datatype effect =
    Print string
  | PrintErr string
  | PrintUsage
  | Symlink string string
  | WriteFile string string
  | Remove string
  | RemoveAll string
  | Build string string "library list" "string option"

text \<open>
  A folder as \<open>ReadDir\<close> lists it, entries in listing order: a plain file, a folder with
  its own listing, or a folder whose listing fails.
\<close>

datatype fsnode = File string | Dir string "fsnode list" | BadDir string

section \<open>Library functions of Go used by the program\<close>

definition HasPrefix :: "string \<Rightarrow> string \<Rightarrow> bool" where
  "HasPrefix s p = (take (length p) s = p)"

text \<open>\<open>strings.Contains\<close>: \<open>sub\<close> occurs in \<open>s\<close> as a contiguous run of bytes.\<close>

fun Contains :: "string \<Rightarrow> string \<Rightarrow> bool" where
  "Contains [] sub = (sub = [])"
| "Contains (c # s) sub = (HasPrefix (c # s) sub \<or> Contains s sub)"

text \<open>\<open>utils.SliceContains\<close>.\<close>

fun SliceContains :: "string list \<Rightarrow> string \<Rightarrow> bool" where
  "SliceContains [] target = False"
| "SliceContains (v # slice) target = (if v = target then True else SliceContains slice target)"

text \<open>
  \<open>filepath.Ext\<close>: the suffix of the path from the last dot of its last element, empty
  when that element has no dot. \<open>ExtFrom\<close> scans the reversed path, \<open>acc\<close> the bytes
  already passed.
\<close>

fun ExtFrom :: "string \<Rightarrow> string \<Rightarrow> string" where
  "ExtFrom [] acc = []"
| "ExtFrom (c # r) acc =
     (if c = CHR ''/'' then []
      else if c = CHR ''.'' then c # acc
      else ExtFrom r (c # acc))"

definition Ext :: "string \<Rightarrow> string" where
  "Ext path = ExtFrom (rev path) []"

text \<open>
  \<open>string(n)\<close> for an integer \<open>n\<close>: the UTF-8 encoding of the code point \<open>n\<close>, and of
  U+FFFD when \<open>n\<close> is no valid code point.
\<close>

definition byte :: "int \<Rightarrow> char" where
  "byte n = char_of n"

definition stringOfRune :: "int \<Rightarrow> string" where
  "stringOfRune n =
     (if n < 0 \<or> 1114111 < n \<or> (55296 \<le> n \<and> n \<le> 57343)
        then [byte 239, byte 191, byte 189]
      else if n < 128 then [byte n]
      else if n < 2048 then [byte (192 + n div 64), byte (128 + n mod 64)]
      else if n < 65536
        then [byte (224 + n div 4096), byte (128 + (n div 64) mod 64), byte (128 + n mod 64)]
      else [byte (240 + n div 262144), byte (128 + (n div 4096) mod 64),
            byte (128 + (n div 64) mod 64), byte (128 + n mod 64)])"

text \<open>\<open>fmt.Print\<close> of a slice of strings: the elements between brackets, a space apart.\<close>

fun joinSpace :: "string list \<Rightarrow> string" where
  "joinSpace [] = []"
| "joinSpace [x] = x"
| "joinSpace (x # y # ys) = x @ '' '' @ joinSpace (y # ys)"

definition showSlice :: "string list \<Rightarrow> string" where
  "showSlice xs = ''['' @ joinSpace xs @ '']''"

text \<open>
  \<open>filepath.Base\<close> on a slash-separated path: the last element, after trailing
  slashes are dropped; \<open>.\<close> for the empty path and \<open>/\<close> for a path of slashes only.
\<close>

definition Base :: "string \<Rightarrow> string" where
  "Base path =
     (if path = [] then ''.''
      else let stripped = rev (dropWhile (\<lambda>c. c = CHR ''/'') (rev path));
               element = rev (takeWhile (\<lambda>c. c \<noteq> CHR ''/'') (rev stripped))
           in if element = [] then ''/'' else element)"

definition newline :: string where
  "newline = [CHR 0x0A]"

definition dquote :: string where
  "dquote = [CHR 0x22]"

section \<open>The outside of the program\<close>

text \<open>
  The collaborators that are not part of the repository, as parameters: the builder
  (\<open>ParseHardware\<close> stands for \<open>builder.RunParseHardwareAndDumpBuildProperties\<close>, which
  fills \<open>ctx.Libraries\<close>; \<open>RunBuilder\<close> for \<open>builder.RunBuilder\<close>, which is given the
  outside world, the board \<open>ctx.FQBN\<close> and \<open>ctx.SketchLocation\<close> and leaves the new
  world, \<open>ctx.ImportedLibraries\<close> and its error), the JSON codec, the operating system
  and the string metric. \<open>ReadFile\<close> and \<open>ReadDir\<close> are \<open>None\<close> when the call returns an
  error; \<open>Stat\<close>, \<open>EnsureFolderExists\<close> and the builder return \<open>Some\<close> error message
  when they fail; \<open>Unquote\<close> and the decoders return \<open>Inl\<close> the error message.
  \<open>Apply\<close> says how an effect of the program changes the outside world. The value of
  \<open>JaroWinklerDistance\<close> is a \<open>float64\<close>, read as the real number it denotes.
\<close>

record 'w env =
  Unquote :: "string \<Rightarrow> string + string"
  Stat :: "string \<Rightarrow> string option"
  EnsureFolderExists :: "string \<Rightarrow> string option"
  ReadFile :: "string \<Rightarrow> string option"
  UnmarshalCache :: "string \<Rightarrow> string + (string \<rightharpoonup> bool)"
  UnmarshalIndex :: "string \<Rightarrow> string + indexLibrary list"
  MarshalIndex :: "indexLibrary list \<Rightarrow> string"
  MarshalCache :: "(string \<rightharpoonup> bool) \<Rightarrow> string"
  ParseHardware :: "string list \<Rightarrow> string list \<Rightarrow> string list \<Rightarrow> string list \<Rightarrow> 'w \<times> library list"
  RunBuilder :: "'w \<Rightarrow> string \<Rightarrow> string \<Rightarrow> 'w \<times> library list \<times> string option"
  Apply :: "'w \<Rightarrow> effect \<Rightarrow> 'w"
  TempDir :: "string \<Rightarrow> string"
  AbsPath :: "string \<Rightarrow> string"
  Join :: "string list \<Rightarrow> string"
  ReadDir :: "string \<Rightarrow> fsnode list option"
  JaroWinklerDistance :: "string \<Rightarrow> string \<Rightarrow> real"

text \<open>The command line, after \<open>flag.Parse\<close>.\<close>

record flags =
  librariesJsonPath :: string
  hardwareFoldersFlag :: "string list"
  toolsFoldersFlag :: "string list"
  librariesFoldersFlag :: "string list"
  librariesBuiltInFoldersFlag :: "string list"
  buildPathFlag :: string
  forceRebuild :: bool
  exampleFlag :: bool

text \<open>
  The variables of \<open>main\<close> that change while it runs: the fields of \<open>ctx\<close> the loop
  assigns, the decoded catalog \<open>indexJson.Libraries\<close>, the cache \<open>previousRun.Exists\<close>,
  the outside world and the effects so far.
\<close>

record 'w state =
  FQBN :: string
  SketchLocation :: string
  ImportedLibraries :: "library list"
  indexJson :: "indexLibrary list"
  previousRun :: "string \<rightharpoonup> bool"
  World :: 'w
  Log :: "effect list"

definition emit :: "'w env \<Rightarrow> effect \<Rightarrow> 'w state \<Rightarrow> 'w state" where
  "emit env e st = st\<lparr>World := Apply env (World st) e, Log := Log st @ [e]\<rparr>"

section \<open>The functions of the program\<close>

text \<open>\<open>indexJsonContains\<close>: the position of the first entry with the name and version, or -1.\<close>

fun indexJsonContainsFrom :: "int \<Rightarrow> indexLibrary list \<Rightarrow> string \<Rightarrow> string \<Rightarrow> int" where
  "indexJsonContainsFrom idx [] name version = -1"
| "indexJsonContainsFrom idx (lib # index) name version =
     (if LibraryName lib = name \<and> IdxVersion lib = version then idx
      else indexJsonContainsFrom (idx + 1) index name version)"

definition indexJsonContains :: "indexLibrary list \<Rightarrow> string \<Rightarrow> string \<Rightarrow> int" where
  "indexJsonContains index name version = indexJsonContainsFrom 0 index name version"

text \<open>
  \<open>findFilesInFolder\<close>, on the listing of the folder: the files with the extension first
  (\<open>utils.FilterFilesWithExtensions\<close>), then, folder by folder (\<open>utils.FilterDirs\<close>), the
  files found below; an error anywhere below makes the whole result an error.
\<close>

fun nodeName :: "fsnode \<Rightarrow> string" where
  "nodeName (File n) = n"
| "nodeName (Dir n sub) = n"
| "nodeName (BadDir n) = n"

fun isDir :: "fsnode \<Rightarrow> bool" where
  "isDir (File n) = False"
| "isDir (Dir n sub) = True"
| "isDir (BadDir n) = True"

definition FilterFilesWithExtensions :: "string \<Rightarrow> fsnode list \<Rightarrow> fsnode list" where
  "FilterFilesWithExtensions extension files =
     filter (\<lambda>file. \<not> isDir file \<and> Ext (nodeName file) = extension) files"

definition FilterDirs :: "fsnode list \<Rightarrow> fsnode list" where
  "FilterDirs files = filter isDir files"

fun findFilesInListing ::
    "(string list \<Rightarrow> string) \<Rightarrow> string \<Rightarrow> string \<Rightarrow> bool \<Rightarrow> fsnode list \<Rightarrow> string list option"
  and findFilesInFolders ::
    "(string list \<Rightarrow> string) \<Rightarrow> string \<Rightarrow> string \<Rightarrow> bool \<Rightarrow> fsnode list \<Rightarrow> string list
      \<Rightarrow> string list option"
where
  "findFilesInListing join sourcePath extension recurse files =
     (let sources = map (\<lambda>file. join [sourcePath, nodeName file])
                      (FilterFilesWithExtensions extension files)
      in if recurse
         then findFilesInFolders join sourcePath extension recurse files sources
         else Some sources)"
| "findFilesInFolders join sourcePath extension recurse [] sources = Some sources"
| "findFilesInFolders join sourcePath extension recurse (File n # folders) sources =
     findFilesInFolders join sourcePath extension recurse folders sources"
| "findFilesInFolders join sourcePath extension recurse (BadDir n # folders) sources = None"
| "findFilesInFolders join sourcePath extension recurse (Dir n sub # folders) sources =
     (case findFilesInListing join (join [sourcePath, n]) extension recurse sub of
        None \<Rightarrow> None
      | Some otherSources \<Rightarrow>
          findFilesInFolders join sourcePath extension recurse folders (sources @ otherSources))"

definition findFilesInFolder ::
    "'w env \<Rightarrow> string \<Rightarrow> string \<Rightarrow> bool \<Rightarrow> string list option" where
  "findFilesInFolder env sourcePath extension recurse =
     (case ReadDir env sourcePath of
        None \<Rightarrow> None
      | Some files \<Rightarrow> findFilesInListing (Join env) sourcePath extension recurse files)"

text \<open>
  \<open>includeHeadersFromLibraryFolder\<close>: the loop over the headers carries the text \<open>temp\<close>
  and the counter \<open>includedLibs\<close>.
\<close>

definition includeLine :: "string \<Rightarrow> string" where
  "includeLine header = ''#include '' @ dquote @ Base header @ dquote @ newline"

fun includeLoop :: "'w env \<Rightarrow> library \<Rightarrow> string list \<Rightarrow> string \<times> nat \<Rightarrow> string \<times> nat" where
  "includeLoop env library [] (temp, includedLibs) = (temp, includedLibs)"
| "includeLoop env library (header # headers) (temp, includedLibs) =
     (if JaroWinklerDistance env (Base header) (Name library) > 0.9
      then includeLoop env library headers (temp @ includeLine header, includedLibs + 1)
      else includeLoop env library headers (temp, includedLibs))"

definition includeHeadersFromLibraryFolder :: "'w env \<Rightarrow> library \<Rightarrow> string" where
  "includeHeadersFromLibraryFolder env library =
     (let headers = (case findFilesInFolder env (Folder library) ''.h'' True of
                       None \<Rightarrow> [] | Some hs \<Rightarrow> hs);
          (temp, includedLibs) = includeLoop env library headers (newline, 0)
      in case headers of
           [] \<Rightarrow> temp
         | header0 # _ \<Rightarrow> if includedLibs = 0 then temp @ includeLine header0 else temp)"

text \<open>
  The choice of the board (lines 298 to 322 of \<open>main\<close>): a chain of assignments to
  \<open>ctx.FQBN\<close>, which starts from the value the previous library left there.
  \<open>library.Archs[0]\<close> panics on an empty list.
\<close>

definition targetProfile :: "string \<Rightarrow> library \<Rightarrow> abort + string" where
  "targetProfile fqbn library =
     (case Archs library of
        [] \<Rightarrow> Inl Panic
      | arch0 # _ \<Rightarrow>
          let f1 = (if arch0 = ''*'' \<or> SliceContains (Archs library) ''avr''
                    then ''arduino:avr:micro'' else fqbn);
              f2 = (if Contains (Name library) ''Robot''
                    then (if Contains (Name library) ''Control''
                          then ''arduino:avr:robotControl'' else ''arduino:avr:robotMotor'')
                    else f1);
              f3 = (if Contains (Name library) ''Adafruit'' \<and> Contains (Name library) ''Playground''
                    then ''arduino:avr:circuitplay32u4cat'' else f2);
              f4 = (if SliceContains (Archs library) ''sam''
                    then ''arduino:sam:arduino_due_x_dbg'' else f3);
              f5 = (if SliceContains (Archs library) ''samd''
                    then ''arduino:samd:mkr1000'' else f4);
              f6 = (if SliceContains (Archs library) ''arc32''
                    then ''Intel:arc32:arduino_101'' else f5);
              f7 = (if SliceContains (Archs library) ''esp8266''
                    then ''esp8266:esp8266:nodemcuv2:CpuFrequency=80,UploadSpeed=115200,FlashSize=4M3M''
                    else f6)
          in Inr f7)"

text \<open>
  The loop over \<open>ctx.ImportedLibraries\<close> (lines 349 to 357, and again 392 to 400), on the
  pair \<open>(deps, internal_deps)\<close>. \<open>ctx.OtherLibrariesFolders[0]\<close> panics on an empty list.
\<close>

fun classifyImported ::
    "string list \<Rightarrow> library \<Rightarrow> library list \<Rightarrow> string list \<times> string list
      \<Rightarrow> abort + string list \<times> string list" where
  "classifyImported other library [] (deps, internal_deps) = Inr (deps, internal_deps)"
| "classifyImported other library (dep # imported) (deps, internal_deps) =
     (if RealName dep \<noteq> RealName library \<and> \<not> SliceContains deps (RealName dep)
         \<and> \<not> SliceContains internal_deps (RealName dep)
      then (case other of
              [] \<Rightarrow> Inl Panic
            | other0 # _ \<Rightarrow>
                if Contains (Folder dep) other0
                then classifyImported other library imported (deps @ [RealName dep], internal_deps)
                else classifyImported other library imported (deps, internal_deps @ [RealName dep]))
      else classifyImported other library imported (deps, internal_deps))"

text \<open>One run of the builder on the board and sketch of the state.\<close>

definition runBuilder :: "'w env \<Rightarrow> 'w state \<Rightarrow> 'w state \<times> string option" where
  "runBuilder env st =
     (let (w, imported, err) = RunBuilder env (World st) (FQBN st) (SketchLocation st)
      in (st\<lparr>ImportedLibraries := imported, World := w,
              Log := Log st @ [Build (FQBN st) (SketchLocation st) imported err]\<rparr>, err))"

text \<open>Lines 289 to 296: the symbolic link named after \<open>RealName\<close>.\<close>

definition symlinkWithBestName :: "'w env \<Rightarrow> library \<Rightarrow> string" where
  "symlinkWithBestName env library = Join env [Folder library, ''..'', RealName library]"

definition usingSymlink :: "'w env \<Rightarrow> library \<Rightarrow> bool" where
  "usingSymlink env library = (symlinkWithBestName env library \<noteq> Folder library)"

definition linkFolder :: "'w env \<Rightarrow> library \<Rightarrow> 'w state \<Rightarrow> 'w state" where
  "linkFolder env library st =
     (if usingSymlink env library
      then emit env (Print (''symlinking '' @ Folder library @ '' to ''
                              @ symlinkWithBestName env library @ newline))
             (emit env (Symlink (Folder library) (symlinkWithBestName env library)) st)
      else st)"

text \<open>Lines 324 to 342: the generated sketch is written, built and removed.\<close>

definition primaryProbe :: "'w env \<Rightarrow> library \<Rightarrow> 'w state \<Rightarrow> 'w state \<times> string option" where
  "primaryProbe env library st =
     (let tempDir = TempDir env (''sketch'' @ Name library);
          st1 = st\<lparr>ImportedLibraries := [],
                   SketchLocation := AbsPath env (tempDir @ ''/sketch.ino'')\<rparr>;
          sketch = includeHeadersFromLibraryFolder env library
                     @ newline @ ''void loop(){}'' @ newline @ ''void setup(){}'' @ newline;
          st2 = emit env (WriteFile (SketchLocation st1) sketch) st1;
          (st3, err) = runBuilder env st2
      in (emit env (RemoveAll tempDir) (emit env (Remove tempDir) st3), err))"

text \<open>Lines 361 to 371 and 402 to 413: the summary lines.\<close>

definition printDeps :: "'w env \<Rightarrow> string \<Rightarrow> string list \<Rightarrow> string list \<Rightarrow> 'w state \<Rightarrow> 'w state" where
  "printDeps env head deps internal_deps st =
     emit env (Print '' provided by cores or builtin'')
       (emit env (Print (showSlice internal_deps))
         (emit env (Print '' provided by lib manager and '')
           (emit env (Print (showSlice deps))
             (emit env (Print head) st))))"

definition reportLibrary ::
    "'w env \<Rightarrow> library \<Rightarrow> string list \<Rightarrow> string list \<Rightarrow> string option \<Rightarrow> 'w state \<Rightarrow> 'w state" where
  "reportLibrary env library deps internal_deps err st =
     (let st1 = printDeps env (''Library '' @ Name library @ '' depends on: '') deps internal_deps st
      in case err of
           Some e \<Rightarrow> emit env (Print ('' but failed to compile on '' @ FQBN st1 @ newline)) st1
         | None \<Rightarrow> emit env (Print newline) st1)"

definition reportExamples ::
    "'w env \<Rightarrow> library \<Rightarrow> string list \<Rightarrow> string list \<Rightarrow> string list \<Rightarrow> 'w state \<Rightarrow> 'w state" where
  "reportExamples env library deps internal_deps errors_examples st =
     (let st1 = printDeps env (''Examples for '' @ Name library @ '' depends on: '')
                  deps internal_deps st
      in if length errors_examples > 0
         then emit env (Print ('' but '' @ stringOfRune (int (length errors_examples))
                                 @ '' failed to compile on '' @ FQBN st1 @ newline)) st1
         else emit env (Print newline) st1)"

text \<open>
  Lines 381 to 401: the loop over the examples, on the state and the triple
  \<open>(deps, internal_deps, errors_examples)\<close>.
\<close>

fun compileExamples ::
    "'w env \<Rightarrow> string list \<Rightarrow> library \<Rightarrow> string list
      \<Rightarrow> 'w state \<times> string list \<times> string list \<times> string list
      \<Rightarrow> abort \<times> effect list + 'w state \<times> string list \<times> string list \<times> string list" where
  "compileExamples env other library [] acc = Inr acc"
| "compileExamples env other library (example # examples) (st, deps, internal_deps, errors_examples) =
     (let (st1, err) = runBuilder env (st\<lparr>SketchLocation := example, ImportedLibraries := []\<rparr>);
          errors_examples1 = (case err of Some e \<Rightarrow> errors_examples @ [e]
                                        | None \<Rightarrow> errors_examples)
      in case classifyImported other library (ImportedLibraries st1) (deps, internal_deps) of
           Inl a \<Rightarrow> Inl (a, Log st1)
         | Inr (deps1, internal_deps1) \<Rightarrow>
             compileExamples env other library examples
               (st1, deps1, internal_deps1, errors_examples1))"

text \<open>Lines 373 to 415: the pass over the examples, when \<open>exampleFlag\<close> is set.\<close>

definition examplePass ::
    "'w env \<Rightarrow> string list \<Rightarrow> library \<Rightarrow> 'w state \<times> string list \<times> string list
      \<Rightarrow> abort \<times> effect list + 'w state \<times> string list \<times> string list" where
  "examplePass env other library acc =
     (let (st, deps, internal_deps) = acc;
          libraryExamplesPath = Join env [Folder library, ''examples''];
          examples = (case findFilesInFolder env libraryExamplesPath ''.ino'' True of
                        None \<Rightarrow> [] | Some es \<Rightarrow> es)
      in case compileExamples env other library examples (st, deps, internal_deps, []) of
           Inl a \<Rightarrow> Inl a
         | Inr (st1, deps1, internal_deps1, errors_examples) \<Rightarrow>
             Inr (reportExamples env library deps1 internal_deps1 errors_examples st1,
                  deps1, internal_deps1))"

text \<open>Lines 417 to 422: the link is removed, the entry and the cache are written.\<close>

definition finalize :: "'w env \<Rightarrow> library \<Rightarrow> nat \<Rightarrow> string list \<Rightarrow> 'w state \<Rightarrow> 'w state" where
  "finalize env library libIndex deps st =
     (let st1 = (if usingSymlink env library
                 then emit env (RemoveAll (symlinkWithBestName env library)) st else st)
      in st1\<lparr>indexJson := (indexJson st1)[libIndex := (indexJson st1 ! libIndex)\<lparr>Requires := deps\<rparr>],
              previousRun := (previousRun st1)(Name library \<mapsto> True)\<rparr>)"

text \<open>
  The body of the loop of \<open>main\<close> for a library that is not passed over, in two
  parts: lines 289 to 415 (\<open>probeLibrary\<close>: the link, the board, the probe, the
  classification, the examples), which leave the state and the lists \<open>deps\<close> and
  \<open>internal_deps\<close>, and lines 417 to 422 (\<open>finalize\<close>).
\<close>

definition probeLibrary ::
    "'w env \<Rightarrow> string list \<Rightarrow> bool \<Rightarrow> library \<Rightarrow> 'w state
      \<Rightarrow> abort \<times> effect list + 'w state \<times> string list \<times> string list" where
  "probeLibrary env other examples library st =
     (let st1 = linkFolder env library st
      in (case targetProfile (FQBN st1) library of
            Inl a \<Rightarrow> Inl (a, Log st1)
          | Inr fqbn \<Rightarrow>
              (let (st2, err) = primaryProbe env library (st1\<lparr>FQBN := fqbn\<rparr>)
               in (case classifyImported other library (ImportedLibraries st2) ([], []) of
                     Inl a \<Rightarrow> Inl (a, Log st2)
                   | Inr (deps, internal_deps) \<Rightarrow>
                       (let st3 = reportLibrary env library deps internal_deps err st2
                        in if examples
                           then examplePass env other library (st3, deps, internal_deps)
                           else Inr (st3, deps, internal_deps))))))"

definition processLibrary ::
    "'w env \<Rightarrow> string list \<Rightarrow> bool \<Rightarrow> library \<Rightarrow> nat \<Rightarrow> 'w state
      \<Rightarrow> abort \<times> effect list + 'w state" where
  "processLibrary env other examples library libIndex st =
     (case probeLibrary env other examples library st of
        Inl a \<Rightarrow> Inl a
      | Inr (st4, deps, internal_deps) \<Rightarrow> Inr (finalize env library libIndex deps st4))"

text \<open>Lines 274 to 423: the loop over \<open>ctx.Libraries\<close>.\<close>

fun mainLoop ::
    "'w env \<Rightarrow> string list \<Rightarrow> bool \<Rightarrow> bool \<Rightarrow> library list \<Rightarrow> 'w state
      \<Rightarrow> abort \<times> effect list + 'w state" where
  "mainLoop env other force examples [] st = Inr st"
| "mainLoop env other force examples (library # libraries) st =
     (let libIndex = indexJsonContains (indexJson st) (RealName library) (Version library)
      in if libIndex = -1 then mainLoop env other force examples libraries st
         else if previousRun st (Name library) = Some True \<and> force = False
           then mainLoop env other force examples libraries st
         else case processLibrary env other examples library (nat libIndex) st of
                Inl a \<Rightarrow> Inl a
              | Inr st1 \<Rightarrow> mainLoop env other force examples libraries st1)"

section \<open>Start and end of \<open>main\<close>\<close>

fun toSliceOfUnquoted :: "'w env \<Rightarrow> string list \<Rightarrow> string + string list" where
  "toSliceOfUnquoted env [] = Inr []"
| "toSliceOfUnquoted env (v # value) =
     (case Unquote env v of
        Inl err \<Rightarrow> Inl err
      | Inr u \<Rightarrow> (case toSliceOfUnquoted env value of
                    Inl err \<Rightarrow> Inl err
                  | Inr values \<Rightarrow> Inr (u # values)))"

text \<open>
  \<open>printCompleteError\<close> and \<open>printErrorMessageAndFlagUsage\<close> end the process: the exit
  code and what was printed (the error's stack trace is stood for by its message).
\<close>

definition printCompleteError :: "string \<Rightarrow> abort \<times> effect list" where
  "printCompleteError err = (Exit 1, [PrintErr (err @ newline)])"

definition printErrorMessageAndFlagUsage :: "string \<Rightarrow> abort \<times> effect list" where
  "printErrorMessageAndFlagUsage err = (Exit 1, [PrintErr (err @ newline), PrintUsage])"

record folders =
  HardwareFolders :: "string list"
  ToolsFolders :: "string list"
  OtherLibrariesFolders :: "string list"
  BuiltInLibrariesFolders :: "string list"
  BuildPath :: string

text \<open>Lines 153 to 210: the flags are checked and copied into \<open>ctx\<close>.\<close>

definition parseFlags :: "'w env \<Rightarrow> flags \<Rightarrow> abort \<times> effect list + folders" where
  "parseFlags env fl =
     (if librariesJsonPath fl = []
      then Inl (Exit 1, [Print (''You need to pass the path of a library_index.json'' @ newline)])
      else (case toSliceOfUnquoted env (hardwareFoldersFlag fl) of
        Inl err \<Rightarrow> Inl (printCompleteError err)
      | Inr hardwareFolders \<Rightarrow>
          if length hardwareFolders = 0
          then Inl (printErrorMessageAndFlagUsage ''Parameter 'hardware' is mandatory'')
          else (case toSliceOfUnquoted env (toolsFoldersFlag fl) of
            Inl err \<Rightarrow> Inl (printCompleteError err)
          | Inr toolsFolders \<Rightarrow>
              if length toolsFolders = 0
              then Inl (printErrorMessageAndFlagUsage ''Parameter 'tools' is mandatory'')
              else (case toSliceOfUnquoted env (librariesFoldersFlag fl) of
                Inl err \<Rightarrow> Inl (printCompleteError err)
              | Inr librariesFolders \<Rightarrow>
                  (case toSliceOfUnquoted env (librariesBuiltInFoldersFlag fl) of
                    Inl err \<Rightarrow> Inl (printCompleteError err)
                  | Inr librariesBuiltInFolders \<Rightarrow>
                      (case Unquote env (buildPathFlag fl) of
                        Inl err \<Rightarrow> Inl (printCompleteError err)
                      | Inr buildPath \<Rightarrow>
                          (let ctx = \<lparr>HardwareFolders = hardwareFolders,
                                      ToolsFolders = toolsFolders,
                                      OtherLibrariesFolders = librariesFolders,
                                      BuiltInLibrariesFolders = librariesBuiltInFolders,
                                      BuildPath = buildPath\<rparr>
                           in if buildPath \<noteq> []
                              then (case Stat env buildPath of
                                      Some err \<Rightarrow> Inl (Exit 1, [PrintErr (err @ newline)])
                                    | None \<Rightarrow>
                                        (case EnsureFolderExists env buildPath of
                                           Some err \<Rightarrow> Inl (printCompleteError err)
                                         | None \<Rightarrow> Inr ctx))
                              else Inr ctx)))))))"

text \<open>
  Lines 240 to 251: \<open>cached_results.json\<close> is decoded when it can be read; an error of
  the decoder ends the process.
\<close>

definition loadCache :: "'w env \<Rightarrow> abort \<times> effect list + (string \<rightharpoonup> bool)" where
  "loadCache env =
     (case ReadFile env ''cached_results.json'' of
        None \<Rightarrow> Inr Map.empty
      | Some prev \<Rightarrow>
          (case UnmarshalCache env prev of
             Inl err \<Rightarrow> Inl (Exit 1, [Print (err @ newline)])
           | Inr exists \<Rightarrow> Inr exists))"

text \<open>
  Lines 253 to 259: the catalog is decoded; the error of \<open>ReadFile\<close> is dropped and the
  decoder is then given no bytes.
\<close>

definition loadIndex :: "'w env \<Rightarrow> string \<Rightarrow> abort \<times> effect list + indexLibrary list" where
  "loadIndex env path =
     (let dec = (case ReadFile env path of None \<Rightarrow> [] | Some bytes \<Rightarrow> bytes)
      in case UnmarshalIndex env dec of
           Inl err \<Rightarrow> Inl (Exit 1, [Print (err @ newline)])
         | Inr libraries \<Rightarrow> Inr libraries)"

text \<open>Everything before the loop: the folders, the libraries to visit and the first state.\<close>

definition startup ::
    "'w env \<Rightarrow> flags \<Rightarrow> abort \<times> effect list + folders \<times> library list \<times> 'w state" where
  "startup env fl =
     (case parseFlags env fl of
        Inl a \<Rightarrow> Inl a
      | Inr ctx \<Rightarrow>
          (let (w, libraries) = ParseHardware env (HardwareFolders ctx) (ToolsFolders ctx)
                                  (OtherLibrariesFolders ctx) (BuiltInLibrariesFolders ctx)
           in (case loadCache env of
                 Inl a \<Rightarrow> Inl a
               | Inr exists \<Rightarrow>
                   (case loadIndex env (librariesJsonPath fl) of
                      Inl a \<Rightarrow> Inl a
                    | Inr index \<Rightarrow>
                        Inr (ctx, libraries,
                             \<lparr>FQBN = ''arduino:avr:uno'', SketchLocation = [],
                              ImportedLibraries = [], indexJson = index,
                              previousRun = exists, World = w, Log = []\<rparr>)))))"

text \<open>Lines 425 to 435: both files are written.\<close>

definition saveResults :: "'w env \<Rightarrow> flags \<Rightarrow> 'w state \<Rightarrow> 'w state" where
  "saveResults env fl st =
     emit env (WriteFile ''cached_results.json'' (MarshalCache env (previousRun st)))
       (emit env (WriteFile (librariesJsonPath fl) (MarshalIndex env (indexJson st))) st)"

text \<open>A run that no signal interrupts: how the process ends, and its effects.\<close>

definition main :: "'w env \<Rightarrow> flags \<Rightarrow> abort \<times> effect list" where
  "main env fl =
     (case startup env fl of
        Inl a \<Rightarrow> a
      | Inr (ctx, libraries, st0) \<Rightarrow>
          (case mainLoop env (OtherLibrariesFolders ctx) (forceRebuild fl) (exampleFlag fl)
                  libraries st0 of
             Inl a \<Rightarrow> a
           | Inr st \<Rightarrow> (Exit 0, Log (saveResults env fl st))))"

text \<open>
  Lines 261 to 272: what the goroutine that waits for \<open>os.Interrupt\<close> or \<open>SIGTERM\<close> does
  when the signal arrives while the variables of \<open>main\<close> are in state \<open>st\<close>.
\<close>

definition onSignal :: "'w env \<Rightarrow> flags \<Rightarrow> 'w state \<Rightarrow> abort \<times> effect list" where
  "onSignal env fl st =
     (Exit 2,
      Log (emit env (Print (''Exiting due to CTRL+C'' @ newline))
             (emit env (WriteFile (librariesJsonPath fl) (MarshalIndex env (indexJson st))) st)))"

section \<open>Notions used in the statements\<close>

text \<open>The libraries the runs of the builder recorded in a log imported, in order.\<close>

fun observed :: "effect list \<Rightarrow> library list" where
  "observed [] = []"
| "observed (e # es) =
     (case e of Build fqbn sketch imported err \<Rightarrow> imported @ observed es | _ \<Rightarrow> observed es)"

text \<open>The first library of a list with a given \<open>RealName\<close>.\<close>

definition firstNamed :: "string \<Rightarrow> library list \<Rightarrow> library option" where
  "firstNamed n imported = find (\<lambda>d. RealName d = n) imported"

text \<open>
  The test of lines 351 and 394 as the code makes it: the folder of the dependency
  contains the given folder as a run of bytes.
\<close>

definition folderContains :: "string \<Rightarrow> library \<Rightarrow> bool" where
  "folderContains other0 dep = Contains (Folder dep) other0"

text \<open>
  The rule in the words of the specification: a folder lies under a root when it is the
  root or a path below it, and under the "other libraries" roots when it lies under one
  of the configured folders.
\<close>

definition liesUnder :: "string \<Rightarrow> string \<Rightarrow> bool" where
  "liesUnder rootFolder folder =
     (rootFolder \<noteq> [] \<and>
      (folder = rootFolder
       \<or> HasPrefix folder (if last rootFolder = CHR ''/'' then rootFolder
                             else rootFolder @ ''/'')))"

definition underOtherRoots :: "string list \<Rightarrow> library \<Rightarrow> bool" where
  "underOtherRoots other dep = list_ex (\<lambda>rootFolder. liesUnder rootFolder (Folder dep)) other"

text \<open>
  On a list of libraries the test of the code and the rule of the specification agree.
\<close>

definition testAgrees :: "string list \<Rightarrow> library list \<Rightarrow> bool" where
  "testAgrees other imported =
     (case other of
        [] \<Rightarrow> False
      | other0 # rest \<Rightarrow>
          list_all (\<lambda>dep. folderContains other0 dep = underOtherRoots other dep) imported)"

text \<open>An effect is a run of the builder.\<close>

definition isBuild :: "effect \<Rightarrow> bool" where
  "isBuild e = (case e of Build fqbn sketch imported err \<Rightarrow> True | _ \<Rightarrow> False)"

text \<open>A library is in the catalog when \<open>indexJsonContains\<close> finds its name and version.\<close>

definition inCatalog :: "indexLibrary list \<Rightarrow> library \<Rightarrow> bool" where
  "inCatalog index library = (indexJsonContains index (RealName library) (Version library) \<noteq> -1)"

text \<open>The location of the sketch generated for a library.\<close>

definition sketchOf :: "'w env \<Rightarrow> library \<Rightarrow> string" where
  "sketchOf env library = AbsPath env (TempDir env (''sketch'' @ Name library) @ ''/sketch.ino'')"

text \<open>A log records a run of the builder on the sketch generated for the library.\<close>

definition probed :: "'w env \<Rightarrow> library \<Rightarrow> effect list \<Rightarrow> bool" where
  "probed env library events =
     (\<exists>e \<in> set events. case e of Build fqbn sketch imported err \<Rightarrow> sketch = sketchOf env library
                            | _ \<Rightarrow> False)"

text \<open>The headers the probe of a library finds, and those it is confident of.\<close>

definition headersOf :: "'w env \<Rightarrow> library \<Rightarrow> string list" where
  "headersOf env library =
     (case findFilesInFolder env (Folder library) ''.h'' True of None \<Rightarrow> [] | Some hs \<Rightarrow> hs)"

definition confident :: "'w env \<Rightarrow> library \<Rightarrow> string \<Rightarrow> bool" where
  "confident env library header = (JaroWinklerDistance env (Base header) (Name library) > 0.9)"

text \<open>The example sketches the pass over the examples of a library finds.\<close>

definition examplesOf :: "'w env \<Rightarrow> library \<Rightarrow> string list" where
  "examplesOf env library =
     (case findFilesInFolder env (Join env [Folder library, ''examples'']) ''.ino'' True of
        None \<Rightarrow> [] | Some es \<Rightarrow> es)"

text \<open>
  A run that the signal interrupts when the loop has finished with the first \<open>n\<close>
  libraries of \<open>ctx.Libraries\<close>: the goroutine of lines 261 to 272 is started after the
  catalog has been decoded, so a process that ends before that ends as \<open>main\<close> does.
\<close>

definition interruptedAfter :: "'w env \<Rightarrow> flags \<Rightarrow> nat \<Rightarrow> abort \<times> effect list" where
  "interruptedAfter env fl n =
     (case startup env fl of
        Inl a \<Rightarrow> a
      | Inr (ctx, libraries, st0) \<Rightarrow>
          (case mainLoop env (OtherLibrariesFolders ctx) (forceRebuild fl) (exampleFlag fl)
                  (take n libraries) st0 of
             Inl a \<Rightarrow> a
           | Inr st \<Rightarrow> onSignal env fl st))"

section \<open>A small installation, for concrete runs\<close>

definition mkLibrary :: "string \<Rightarrow> string \<Rightarrow> string list \<Rightarrow> library" where
  "mkLibrary name folder archs =
     \<lparr>Name = name, RealName = name, Version = ''1.0.0'', Folder = folder, Archs = archs\<rparr>"

definition mkEntry :: "string \<Rightarrow> string \<Rightarrow> string list \<Rightarrow> indexLibrary" where
  "mkEntry name version requires =
     \<lparr>LibraryName = name, IdxVersion = version, Author = [], Maintainer = [], License = [],
      Sentence = [], Paragraph = [], Website = [], Category = [], Architectures = [],
      Types = [], Requires = requires, URL = [], ArchiveFileName = [], Size = 0,
      Checksum = [], SupportLevel = []\<rparr>"

definition libA :: library where
  "libA = mkLibrary ''A'' ''/libs/A-1.0.0'' [''*'']"

definition libB :: library where
  "libB = mkLibrary ''B'' ''/libs/B'' [''avr'']"

definition libWire :: library where
  "libWire = mkLibrary ''Wire'' ''/core/Wire'' [''*'']"

definition libServo :: library where
  "libServo = mkLibrary ''Servo'' ''/libs/Servo'' [''*'']"

definition libServoCore :: library where
  "libServoCore = (mkLibrary ''Servo'' ''/core/Servo'' [''*''])\<lparr>Version := ''0.9.0''\<rparr>"

definition libSib :: library where
  "libSib = mkLibrary ''Sib'' ''/libs2/Sib'' [''*'']"

definition libFoo :: library where
  "libFoo = mkLibrary ''Foo'' ''/extra/Foo'' [''*'']"

definition demoIndex :: "indexLibrary list" where
  "demoIndex = [mkEntry ''A'' ''1.0.0'' [''stale''], mkEntry ''B'' ''1.0.0'' []]"

text \<open>Paths are joined with a slash; \<open>folder/../name\<close> is the sibling of the folder.\<close>

fun joinSlash :: "string list \<Rightarrow> string" where
  "joinSlash [] = []"
| "joinSlash [x] = x"
| "joinSlash (x # y # ys) = x @ ''/'' @ joinSlash (y # ys)"

definition demoJoin :: "string list \<Rightarrow> string" where
  "demoJoin elems =
     (case elems of
        [folder, up, name] \<Rightarrow>
          if up = ''..''
          then rev (dropWhile (\<lambda>c. c \<noteq> CHR ''/'') (rev folder)) @ name
          else joinSlash elems
      | _ \<Rightarrow> joinSlash elems)"

definition demoExamples :: "fsnode list" where
  "demoExamples = [Dir ''Blink'' [File ''Blink.ino''], File ''notes.txt'',
                   Dir ''Fade'' [File ''Fade.ino'']]"

definition demoReadDir :: "string \<Rightarrow> fsnode list option" where
  "demoReadDir path =
     (if path = ''/libs/A-1.0.0'' then Some [File ''A.cpp'', File ''A.h'']
      else if path = ''/libs/B''
        then Some [File ''B.h'', File ''util.h'', Dir ''examples'' demoExamples,
                   Dir ''src'' [File ''B.h'', File ''detail.h'']]
      else if path = ''/libs/B/examples'' then Some demoExamples
      else if path = ''/libs/Servo'' then Some [File ''readme.md'', Dir ''src'' [File ''impl.cpp'']]
      else if path = ''/core/Wire'' then Some [File ''twi.h'', File ''Wire.h'', BadDir ''utility'']
      else None)"

text \<open>
  The builder of the installation: \<open>A\<close> imports nothing else, \<open>B\<close> imports \<open>A\<close> and
  \<open>Wire\<close>, the examples of \<open>B\<close> do not compile and the first one imports \<open>Servo\<close>. The
  world counts the runs.
\<close>

definition demoBuilder :: "nat \<Rightarrow> string \<Rightarrow> string \<Rightarrow> nat \<times> library list \<times> string option" where
  "demoBuilder w fqbn sketch =
     (if sketch = ''/tmp/sketchA/sketch.ino'' then (w + 1, [libA], None)
      else if sketch = ''/tmp/sketchB/sketch.ino'' then (w + 1, [libB, libA, libWire, libA], None)
      else if sketch = ''/libs/B/examples/Blink/Blink.ino''
        then (w + 1, [libB, libServo, libWire], Some ''exit status 1'')
      else (w + 1, [libB], Some ''exit status 1''))"

definition demoEnv :: "nat env" where
  "demoEnv =
     \<lparr>Unquote = Inr, Stat = (\<lambda>p. None), EnsureFolderExists = (\<lambda>p. None),
      ReadFile = (\<lambda>p. if p = ''index.json'' then Some ''catalog'' else None),
      UnmarshalCache = (\<lambda>s. Inl ''unexpected end of JSON input''),
      UnmarshalIndex = (\<lambda>s. if s = ''catalog'' then Inr demoIndex
                             else Inl ''unexpected end of JSON input''),
      MarshalIndex = (\<lambda>index. concat (map (\<lambda>e. LibraryName e @ '':'' @ showSlice (Requires e)) index)),
      MarshalCache = (\<lambda>m. []),
      ParseHardware = (\<lambda>hardware tools other builtin. (0, [libA, libServo, libB])),
      RunBuilder = demoBuilder, Apply = (\<lambda>w e. w),
      TempDir = (\<lambda>prefix. ''/tmp/'' @ prefix), AbsPath = (\<lambda>p. p), Join = demoJoin,
      ReadDir = demoReadDir,
      JaroWinklerDistance = (\<lambda>a b. if a = b @ ''.h'' then 1 else 0)\<rparr>"

definition demoFlags :: flags where
  "demoFlags =
     \<lparr>librariesJsonPath = ''index.json'', hardwareFoldersFlag = [''/hardware''],
      toolsFoldersFlag = [''/tools''], librariesFoldersFlag = [''/libs''],
      librariesBuiltInFoldersFlag = [''/core''], buildPathFlag = [],
      forceRebuild = False, exampleFlag = True\<rparr>"

definition demoState :: "nat state" where
  "demoState =
     \<lparr>FQBN = ''arduino:avr:uno'', SketchLocation = [], ImportedLibraries = [],
      indexJson = demoIndex, previousRun = Map.empty, World = 0, Log = []\<rparr>"

text \<open>
  A second builder: the probe of \<open>B\<close> imports the \<open>Servo\<close> of the core, its first example
  the \<open>Servo\<close> under the "other libraries" folder.
\<close>

definition twoServos :: "nat \<Rightarrow> string \<Rightarrow> string \<Rightarrow> nat \<times> library list \<times> string option" where
  "twoServos w fqbn sketch =
     (if sketch = ''/tmp/sketchB/sketch.ino'' then (w + 1, [libB, libServoCore], None)
      else if sketch = ''/libs/B/examples/Blink/Blink.ino'' then (w + 1, [libB, libServo], None)
      else (w + 1, [libB], None))"

text \<open>
  A third builder, which imports both libraries named \<open>Servo\<close> whatever the sketch, and a
  fourth, which imports the library in \<open>/libs2\<close>.
\<close>

definition servoPair :: "nat \<Rightarrow> string \<Rightarrow> string \<Rightarrow> nat \<times> library list \<times> string option" where
  "servoPair w fqbn sketch = (w + 1, [libServo, libServoCore], None)"

definition siblingFolder :: "nat \<Rightarrow> string \<Rightarrow> string \<Rightarrow> nat \<times> library list \<times> string option" where
  "siblingFolder w fqbn sketch = (w + 1, [libB, libSib], None)"

section \<open>Basic facts\<close>

lemma SliceContains_iff: "SliceContains xs t \<longleftrightarrow> t \<in> set xs"
  by (induction xs) auto

lemma observed_append: "observed (xs @ ys) = observed xs @ observed ys"
  by (induction xs) (auto split: effect.splits)

lemma emit_fields:
  "FQBN (emit env e st) = FQBN st"
  "SketchLocation (emit env e st) = SketchLocation st"
  "ImportedLibraries (emit env e st) = ImportedLibraries st"
  "indexJson (emit env e st) = indexJson st"
  "previousRun (emit env e st) = previousRun st"
  "Log (emit env e st) = Log st @ [e]"
  by (simp_all add: emit_def)

lemma runBuilder_fields:
  "FQBN (fst (runBuilder env st)) = FQBN st"
  "SketchLocation (fst (runBuilder env st)) = SketchLocation st"
  "indexJson (fst (runBuilder env st)) = indexJson st"
  "previousRun (fst (runBuilder env st)) = previousRun st"
  "Log (fst (runBuilder env st)) =
     Log st @ [Build (FQBN st) (SketchLocation st) (ImportedLibraries (fst (runBuilder env st)))
                 (snd (runBuilder env st))]"
  by (simp_all add: runBuilder_def split: prod.splits)

lemma linkFolder_fields:
  "FQBN (linkFolder env library st) = FQBN st"
  "indexJson (linkFolder env library st) = indexJson st"
  "previousRun (linkFolder env library st) = previousRun st"
  by (simp_all add: linkFolder_def emit_fields)

lemma linkFolder_Log:
  "\<exists>new. Log (linkFolder env library st) = Log st @ new \<and> observed new = []
     \<and> \<not> probed env library new"
  by (simp add: linkFolder_def emit_fields probed_def)

lemma primaryProbe_fields:
  "FQBN (fst (primaryProbe env library st)) = FQBN st"
  "indexJson (fst (primaryProbe env library st)) = indexJson st"
  "previousRun (fst (primaryProbe env library st)) = previousRun st"
  by (simp_all add: primaryProbe_def Let_def emit_fields runBuilder_fields case_prod_beta)

lemma primaryProbe_Log:
  "Log (fst (primaryProbe env library st)) =
     Log st @ [WriteFile (sketchOf env library)
                 (includeHeadersFromLibraryFolder env library
                    @ newline @ ''void loop(){}'' @ newline @ ''void setup(){}'' @ newline),
               Build (FQBN st) (sketchOf env library)
                 (ImportedLibraries (fst (primaryProbe env library st)))
                 (snd (primaryProbe env library st)),
               Remove (TempDir env (''sketch'' @ Name library)),
               RemoveAll (TempDir env (''sketch'' @ Name library))]"
  by (simp add: primaryProbe_def Let_def emit_fields runBuilder_fields case_prod_beta sketchOf_def)

lemma printDeps_fields:
  "FQBN (printDeps env h deps internal_deps st) = FQBN st"
  "indexJson (printDeps env h deps internal_deps st) = indexJson st"
  "previousRun (printDeps env h deps internal_deps st) = previousRun st"
  "Log (printDeps env h deps internal_deps st) =
     Log st @ [Print h, Print (showSlice deps), Print '' provided by lib manager and '',
               Print (showSlice internal_deps), Print '' provided by cores or builtin'']"
  by (simp_all add: printDeps_def emit_fields)

lemma reportLibrary_fields:
  "FQBN (reportLibrary env library deps internal_deps err st) = FQBN st"
  "indexJson (reportLibrary env library deps internal_deps err st) = indexJson st"
  "previousRun (reportLibrary env library deps internal_deps err st) = previousRun st"
  by (simp_all add: reportLibrary_def Let_def emit_fields printDeps_fields split: option.splits)

lemma reportLibrary_Log:
  "\<exists>new. Log (reportLibrary env library deps internal_deps err st) = Log st @ new
     \<and> observed new = [] \<and> \<not> probed env library new"
  by (simp add: reportLibrary_def Let_def emit_fields printDeps_fields probed_def
      split: option.splits)

lemma reportExamples_fields:
  "FQBN (reportExamples env library deps internal_deps errs st) = FQBN st"
  "indexJson (reportExamples env library deps internal_deps errs st) = indexJson st"
  "previousRun (reportExamples env library deps internal_deps errs st) = previousRun st"
  by (simp_all add: reportExamples_def Let_def emit_fields printDeps_fields)

lemma reportExamples_Log:
  "\<exists>new. Log (reportExamples env library deps internal_deps errs st) = Log st @ new
     \<and> observed new = []"
  by (simp add: reportExamples_def Let_def emit_fields printDeps_fields)

lemma finalize_fields:
  "FQBN (finalize env library libIndex deps st) = FQBN st"
  "indexJson (finalize env library libIndex deps st) =
     (indexJson st)[libIndex := (indexJson st ! libIndex)\<lparr>Requires := deps\<rparr>]"
  "previousRun (finalize env library libIndex deps st) = (previousRun st)(Name library \<mapsto> True)"
  by (simp_all add: finalize_def Let_def emit_fields)

lemma finalize_Log:
  "\<exists>new. Log (finalize env library libIndex deps st) = Log st @ new \<and> observed new = []"
  by (simp add: finalize_def Let_def emit_fields)

section \<open>Facts about the classification loop\<close>

lemma classifyImported_append:
  "classifyImported other library (xs @ ys) acc =
     (case classifyImported other library xs acc of
        Inl a \<Rightarrow> Inl a
      | Inr acc' \<Rightarrow> classifyImported other library ys acc')"
proof (induction xs arbitrary: acc)
  case Nil
  then show ?case by (cases acc) simp
next
  case (Cons dep xs)
  obtain deps internal_deps where acc: "acc = (deps, internal_deps)" by (cases acc)
  show ?case
    unfolding acc by (simp add: Cons.IH split: list.splits)
qed

lemma classifyImported_total:
  "other \<noteq> [] \<Longrightarrow> \<exists>r. classifyImported other library imported acc = Inr r"
proof (induction imported arbitrary: acc)
  case Nil
  then show ?case by (cases acc) simp
next
  case (Cons dep imported)
  obtain deps internal_deps where acc: "acc = (deps, internal_deps)" by (cases acc)
  from Cons.prems obtain other0 rest where other: "other = other0 # rest" by (cases other) auto
  show ?case
    unfolding acc other using Cons.IH[unfolded other] by simp
qed

lemma classifyImported_sets:
  assumes "classifyImported (other0 # rest) library imported (deps, internal_deps)
             = Inr (deps', internal_deps')"
  shows "set deps' = set deps \<union>
           {n. n \<noteq> RealName library \<and> n \<notin> set deps \<and> n \<notin> set internal_deps \<and>
               (\<exists>d. firstNamed n imported = Some d \<and> Contains (Folder d) other0)}
       \<and> set internal_deps' = set internal_deps \<union>
           {n. n \<noteq> RealName library \<and> n \<notin> set deps \<and> n \<notin> set internal_deps \<and>
               (\<exists>d. firstNamed n imported = Some d \<and> \<not> Contains (Folder d) other0)}"
  using assms
proof (induction imported arbitrary: deps internal_deps)
  case Nil
  then show ?case by (auto simp: firstNamed_def)
next
  case (Cons dep imported)
  show ?case
  proof (cases "RealName dep \<noteq> RealName library \<and> RealName dep \<notin> set deps
                  \<and> RealName dep \<notin> set internal_deps")
    case False
    with Cons.prems
    have "classifyImported (other0 # rest) library imported (deps, internal_deps)
            = Inr (deps', internal_deps')"
      by (auto simp: SliceContains_iff)
    from Cons.IH[OF this] False show ?thesis
      by (auto simp: firstNamed_def)
  next
    case True
    show ?thesis
    proof (cases "Contains (Folder dep) other0")
      case ext: True
      with True Cons.prems
      have "classifyImported (other0 # rest) library imported
              (deps @ [RealName dep], internal_deps) = Inr (deps', internal_deps')"
        by (auto simp: SliceContains_iff)
      from Cons.IH[OF this] True ext show ?thesis
        by (auto simp: firstNamed_def)
    next
      case ext: False
      with True Cons.prems
      have "classifyImported (other0 # rest) library imported
              (deps, internal_deps @ [RealName dep]) = Inr (deps', internal_deps')"
        by (auto simp: SliceContains_iff)
      from Cons.IH[OF this] True ext show ?thesis
        by (auto simp: firstNamed_def)
    qed
  qed
qed

lemma classifyImported_distinct:
  assumes "classifyImported other library imported (deps, internal_deps)
             = Inr (deps', internal_deps')"
    and "distinct (deps @ internal_deps)" and "RealName library \<notin> set (deps @ internal_deps)"
  shows "distinct (deps' @ internal_deps') \<and> RealName library \<notin> set (deps' @ internal_deps')"
  using assms
proof (induction imported arbitrary: deps internal_deps)
  case Nil
  then show ?case by simp
next
  case (Cons dep imported)
  show ?case
  proof (cases "RealName dep \<noteq> RealName library \<and> RealName dep \<notin> set deps
                  \<and> RealName dep \<notin> set internal_deps")
    case False
    with Cons.prems(1)
    have "classifyImported other library imported (deps, internal_deps)
            = Inr (deps', internal_deps')"
      by (auto simp: SliceContains_iff)
    from Cons.IH[OF this Cons.prems(2,3)] show ?thesis .
  next
    case True
    with Cons.prems(1) obtain other0 rest where other: "other = other0 # rest"
      by (cases other) (auto simp: SliceContains_iff)
    show ?thesis
    proof (cases "Contains (Folder dep) other0")
      case ext: True
      with True Cons.prems(1)
      have "classifyImported other library imported (deps @ [RealName dep], internal_deps)
              = Inr (deps', internal_deps')"
        by (auto simp: SliceContains_iff other)
      from Cons.IH[OF this] True Cons.prems(2,3) show ?thesis by auto
    next
      case ext: False
      with True Cons.prems(1)
      have "classifyImported other library imported (deps, internal_deps @ [RealName dep])
              = Inr (deps', internal_deps')"
        by (auto simp: SliceContains_iff other)
      from Cons.IH[OF this] True Cons.prems(2,3) show ?thesis by auto
    qed
  qed
qed

lemma classifyImported_no_other:
  "classifyImported [] library imported ([], []) =
     (if \<exists>d\<in>set imported. RealName d \<noteq> RealName library then Inl Panic else Inr ([], []))"
  by (induction imported) auto

lemma firstNamed_Some:
  "d \<in> set imported \<Longrightarrow> \<exists>f. firstNamed (RealName d) imported = Some f"
  by (induction imported) (auto simp: firstNamed_def)

lemma firstNamed_props:
  "firstNamed n imported = Some f \<Longrightarrow> f \<in> set imported \<and> RealName f = n"
  unfolding firstNamed_def by (induction imported) (auto split: if_splits)

section \<open>Facts about the small installation\<close>

lemma demo_simps:
  "RealName libB = ''B''" "RealName libA = ''A''" "RealName libWire = ''Wire''"
  "RealName libServo = ''Servo''" "RealName libServoCore = ''Servo''"
  "Folder libB = ''/libs/B''" "Folder libA = ''/libs/A-1.0.0''" "Folder libWire = ''/core/Wire''"
  "Folder libServo = ''/libs/Servo''" "Folder libServoCore = ''/core/Servo''"
  by (simp_all add: libA_def libB_def libWire_def libServo_def libServoCore_def mkLibrary_def)

lemma reportExamples_Log2:
  "\<exists>new. Log (reportExamples env library deps internal_deps errs st) = Log st @ new
     \<and> observed new = [] \<and> filter isBuild new = []"
  by (simp add: reportExamples_def Let_def emit_fields printDeps_fields isBuild_def)

lemma reportLibrary_Log2:
  "\<exists>new. Log (reportLibrary env library deps internal_deps err st) = Log st @ new
     \<and> observed new = [] \<and> filter isBuild new = []"
  by (simp add: reportLibrary_def Let_def emit_fields printDeps_fields isBuild_def
      split: option.splits)

lemma linkFolder_Log2:
  "\<exists>new. Log (linkFolder env library st) = Log st @ new \<and> observed new = []
     \<and> filter isBuild new = []"
  by (simp add: linkFolder_def emit_fields isBuild_def)

lemma runBuilder_imported:
  "ImportedLibraries (fst (runBuilder env st))
     = fst (snd (RunBuilder env (World st) (FQBN st) (SketchLocation st)))"
  by (simp add: runBuilder_def case_prod_beta)

lemma compileExamples_Inr:
  assumes "compileExamples env other library examples (st, deps, internal_deps, errs)
             = Inr (st', deps', internal_deps', errs')"
  shows "\<exists>new. Log st' = Log st @ new
           \<and> classifyImported other library (observed new) (deps, internal_deps)
               = Inr (deps', internal_deps')
           \<and> length (filter isBuild new) = length examples
           \<and> indexJson st' = indexJson st \<and> previousRun st' = previousRun st
           \<and> FQBN st' = FQBN st"
  using assms
proof (induction examples arbitrary: st deps internal_deps errs)
  case Nil
  then show ?case by simp
next
  case (Cons example examples)
  define st0 where "st0 = st\<lparr>SketchLocation := example, ImportedLibraries := []\<rparr>"
  define st1 where "st1 = fst (runBuilder env st0)"
  define err where "err = snd (runBuilder env st0)"
  define errs1 where "errs1 = (case err of Some e \<Rightarrow> errs @ [e] | None \<Rightarrow> errs)"
  from Cons.prems obtain deps1 internal_deps1 where
    c: "classifyImported other library (ImportedLibraries st1) (deps, internal_deps)
          = Inr (deps1, internal_deps1)"
    and r: "compileExamples env other library examples (st1, deps1, internal_deps1, errs1)
          = Inr (st', deps', internal_deps', errs')"
    by (auto simp: case_prod_beta st0_def st1_def err_def errs1_def Let_def split: sum.splits)
  from Cons.IH[OF r] obtain new where
    n: "Log st' = Log st1 @ new"
       "classifyImported other library (observed new) (deps1, internal_deps1)
               = Inr (deps', internal_deps')"
       "length (filter isBuild new) = length examples"
       "indexJson st' = indexJson st1" "previousRun st' = previousRun st1" "FQBN st' = FQBN st1"
    by blast
  have l1: "Log st1 = Log st @ [Build (FQBN st) example (ImportedLibraries st1) err]"
    by (simp add: st1_def err_def runBuilder_fields st0_def)
  have f1: "indexJson st1 = indexJson st" "previousRun st1 = previousRun st" "FQBN st1 = FQBN st"
    by (simp_all add: st1_def runBuilder_fields st0_def)
  let ?new = "Build (FQBN st) example (ImportedLibraries st1) err # new"
  have "Log st' = Log st @ ?new" using n(1) l1 by simp
  moreover have "classifyImported other library (observed ?new) (deps, internal_deps)
               = Inr (deps', internal_deps')"
    using c n(2) by (simp add: classifyImported_append)
  moreover have "length (filter isBuild ?new) = length (example # examples)"
    using n(3) by (simp add: isBuild_def)
  ultimately show ?case using n(4,5,6) f1 by (intro exI[of _ ?new]) simp
qed

lemma classifyImported_Inl:
  "classifyImported other library imported acc = Inl a \<Longrightarrow> a = Panic \<and> other = []"
proof (induction imported arbitrary: acc)
  case Nil
  then show ?case by (cases acc) simp
next
  case (Cons dep imported)
  obtain deps internal_deps where acc: "acc = (deps, internal_deps)" by (cases acc)
  from Cons.prems Cons.IH show ?case
    unfolding acc by (auto split: if_splits list.splits)
qed

lemma compileExamples_Inl:
  "compileExamples env other library examples acc = Inl (a, lg) \<Longrightarrow> a = Panic \<and> other = []"
proof (induction examples arbitrary: acc)
  case Nil
  then show ?case by simp
next
  case (Cons example examples)
  obtain st deps internal_deps errs where acc: "acc = (st, deps, internal_deps, errs)"
    by (cases acc)
  from Cons.prems Cons.IH show ?case
    unfolding acc
    by (auto simp: case_prod_beta Let_def split: sum.splits dest: classifyImported_Inl)
qed

lemma compileExamples_total:
  "other \<noteq> [] \<Longrightarrow> \<exists>r. compileExamples env other library examples acc = Inr r"
proof (cases "compileExamples env other library examples acc")
  case (Inl al)
  assume o: "other \<noteq> []"
  obtain a lg where "al = (a, lg)" by (cases al)
  with Inl compileExamples_Inl[of env other library examples acc a lg] o show ?thesis by simp
next
  case (Inr r)
  then show ?thesis by blast
qed

lemma examplePass_Inr:
  assumes "examplePass env other library (st, deps, internal_deps) = Inr (st', deps', internal_deps')"
  shows "\<exists>new. Log st' = Log st @ new
           \<and> classifyImported other library (observed new) (deps, internal_deps)
               = Inr (deps', internal_deps')
           \<and> length (filter isBuild new) = length (examplesOf env library)
           \<and> indexJson st' = indexJson st \<and> previousRun st' = previousRun st
           \<and> FQBN st' = FQBN st"
proof -
  define examples where "examples = (case findFilesInFolder env (Join env [Folder library, ''examples'']) ''.ino'' True of
                        None \<Rightarrow> [] | Some es \<Rightarrow> es)"
  from assms obtain st1 errs where
    c: "compileExamples env other library examples (st, deps, internal_deps, [])
          = Inr (st1, deps', internal_deps', errs)"
    and s: "st' = reportExamples env library deps' internal_deps' errs st1"
    by (auto simp: examplePass_def Let_def examples_def split: sum.splits)
  have ex: "examples = examplesOf env library" by (simp add: examples_def examplesOf_def)
  from compileExamples_Inr[OF c] obtain new where
    n: "Log st1 = Log st @ new"
       "classifyImported other library (observed new) (deps, internal_deps)
               = Inr (deps', internal_deps')"
       "indexJson st1 = indexJson st" "previousRun st1 = previousRun st" "FQBN st1 = FQBN st"
       "length (filter isBuild new) = length examples"
    by blast
  from reportExamples_Log2[of env library deps' internal_deps' errs st1] obtain new2 where
    n2: "Log st' = Log st1 @ new2" "observed new2 = []" "filter isBuild new2 = []"
    unfolding s by blast
  have "Log st' = Log st @ (new @ new2)" using n(1) n2(1) by simp
  moreover have "classifyImported other library (observed (new @ new2)) (deps, internal_deps)
               = Inr (deps', internal_deps')"
    using n(2) n2(2) by (simp add: observed_append)
  ultimately show ?thesis using n(3,4,5,6) n2(3) ex unfolding s
    by (intro exI[of _ "new @ new2"]) (simp add: reportExamples_fields)
qed

lemma examplePass_Inl:
  "examplePass env other library acc = Inl (a, lg) \<Longrightarrow> a = Panic \<and> other = []"
  by (auto simp: examplePass_def Let_def case_prod_beta split: sum.splits
      dest: compileExamples_Inl)

lemma targetProfile_Inl: "targetProfile fqbn library = Inl a \<Longrightarrow> a = Panic \<and> Archs library = []"
  by (auto simp: targetProfile_def Let_def split: list.splits)

text \<open>probeLibrary: the state and lists it leaves\<close>

lemma probeLibrary_Inr:
  assumes "probeLibrary env other examples library st = Inr (st', deps, internal_deps)"
  shows "\<exists>fqbn new.
           targetProfile (FQBN st) library = Inr fqbn
           \<and> FQBN st' = fqbn
           \<and> Log st' = Log st @ new
           \<and> classifyImported other library (observed new) ([], []) = Inr (deps, internal_deps)
           \<and> (\<exists>imported err. Build fqbn (sketchOf env library) imported err \<in> set new)
           \<and> length (filter isBuild new)
               = 1 + (if examples then length (examplesOf env library) else 0)
           \<and> indexJson st' = indexJson st \<and> previousRun st' = previousRun st"
proof -
  define st1 where "st1 = linkFolder env library st"
  from assms obtain fqbn where t: "targetProfile (FQBN st1) library = Inr fqbn"
    by (auto simp: probeLibrary_def Let_def st1_def split: sum.splits)
  define st2 where "st2 = fst (primaryProbe env library (st1\<lparr>FQBN := fqbn\<rparr>))"
  define err where "err = snd (primaryProbe env library (st1\<lparr>FQBN := fqbn\<rparr>))"
  from assms t obtain deps0 internal_deps0 where
    c: "classifyImported other library (ImportedLibraries st2) ([], []) = Inr (deps0, internal_deps0)"
    by (auto simp: probeLibrary_def Let_def st1_def[symmetric] st2_def case_prod_beta
        split: sum.splits)
  define st3 where "st3 = reportLibrary env library deps0 internal_deps0 err st2"
  have r: "(if examples then examplePass env other library (st3, deps0, internal_deps0)
            else Inr (st3, deps0, internal_deps0)) = Inr (st', deps, internal_deps)"
    using assms t c
    by (auto simp: probeLibrary_def Let_def st1_def[symmetric] st2_def[symmetric]
        err_def[symmetric] st3_def case_prod_beta split: if_splits)
  obtain new1 where n1: "Log st1 = Log st @ new1" "observed new1 = []" "filter isBuild new1 = []"
    using linkFolder_Log2[of env library st] unfolding st1_def by blast
  have f1: "FQBN st1 = FQBN st" "indexJson st1 = indexJson st" "previousRun st1 = previousRun st"
    by (simp_all add: st1_def linkFolder_fields)
  let ?b = "[WriteFile (sketchOf env library)
                 (includeHeadersFromLibraryFolder env library
                    @ newline @ ''void loop(){}'' @ newline @ ''void setup(){}'' @ newline),
               Build fqbn (sketchOf env library) (ImportedLibraries st2) err,
               Remove (TempDir env (''sketch'' @ Name library)),
               RemoveAll (TempDir env (''sketch'' @ Name library))]"
  have l2: "Log st2 = Log st1 @ ?b"
    unfolding st2_def err_def by (simp add: primaryProbe_Log)
  have f2: "FQBN st2 = fqbn" "indexJson st2 = indexJson st" "previousRun st2 = previousRun st"
    by (simp_all add: st2_def primaryProbe_fields f1)
  obtain new3 where n3: "Log st3 = Log st2 @ new3" "observed new3 = []" "filter isBuild new3 = []"
    using reportLibrary_Log2[of env library deps0 internal_deps0 err st2] unfolding st3_def
    by blast
  have f3: "FQBN st3 = fqbn" "indexJson st3 = indexJson st" "previousRun st3 = previousRun st"
    by (simp_all add: st3_def reportLibrary_fields f2)
  have pb: "Build fqbn (sketchOf env library) (ImportedLibraries st2) err \<in> set ?b" by simp
  have cb: "filter isBuild ?b = [Build fqbn (sketchOf env library) (ImportedLibraries st2) err]"
    by (simp add: isBuild_def)
  have ob: "observed ?b = ImportedLibraries st2" by simp
  show ?thesis
  proof (cases examples)
    case False
    with r have e: "st' = st3" "deps = deps0" "internal_deps = internal_deps0" by simp_all
    let ?new = "new1 @ ?b @ new3"
    have "Log st' = Log st @ ?new" using e n1 l2 n3 by simp
    moreover have "observed ?new = ImportedLibraries st2"
      using n1(2) n3(2) by (simp add: observed_append)
    moreover have "\<exists>imported err. Build fqbn (sketchOf env library) imported err \<in> set ?new"
      using pb by auto
    moreover have "length (filter isBuild ?new) = 1"
      using n1(3) n3(3) by (simp add: isBuild_def)
    ultimately show ?thesis using t f1 f3 c e False
      by (intro exI[of _ fqbn] exI[of _ ?new]) simp
  next
    case True
    with r have "examplePass env other library (st3, deps0, internal_deps0)
                   = Inr (st', deps, internal_deps)" by simp
    from examplePass_Inr[OF this] obtain new4 where
      n4: "Log st' = Log st3 @ new4"
          "classifyImported other library (observed new4) (deps0, internal_deps0)
               = Inr (deps, internal_deps)"
          "indexJson st' = indexJson st3" "previousRun st' = previousRun st3" "FQBN st' = FQBN st3"
          "length (filter isBuild new4) = length (examplesOf env library)"
      by blast
    let ?new = "new1 @ ?b @ new3 @ new4"
    have "Log st' = Log st @ ?new" using n4(1) n1 l2 n3 by simp
    moreover have "observed ?new = ImportedLibraries st2 @ observed new4"
      using n1(2) n3(2) by (simp add: observed_append)
    moreover have "\<exists>imported err. Build fqbn (sketchOf env library) imported err \<in> set ?new"
      using pb by auto
    moreover have "length (filter isBuild ?new) = 1 + length (examplesOf env library)"
      using n1(3) n3(3) n4(6) by (simp add: isBuild_def)
    moreover have "classifyImported other library (ImportedLibraries st2 @ observed new4) ([], [])
                     = Inr (deps, internal_deps)"
      using c n4(2) by (simp add: classifyImported_append)
    ultimately show ?thesis using t f1 f3 n4(3,4,5) True
      by (intro exI[of _ fqbn] exI[of _ ?new]) simp
  qed
qed

lemma probeLibrary_Inl:
  "probeLibrary env other examples library st = Inl (a, lg) \<Longrightarrow>
     a = Panic \<and> (other = [] \<or> Archs library = [])"
  by (auto simp: probeLibrary_def Let_def case_prod_beta split: sum.splits if_splits
      dest: targetProfile_Inl classifyImported_Inl examplePass_Inl)

lemma probeLibrary_total:
  assumes "other \<noteq> []" and "Archs library \<noteq> []"
  shows "\<exists>r. probeLibrary env other examples library st = Inr r"
proof (cases "probeLibrary env other examples library st")
  case (Inl al)
  obtain a lg where "al = (a, lg)" by (cases al)
  with Inl probeLibrary_Inl[of env other examples library st a lg] assms show ?thesis by simp
next
  case (Inr r)
  then show ?thesis by blast
qed

lemma processLibrary_Inr:
  assumes "processLibrary env other examples library libIndex st = Inr st'"
  shows "\<exists>st4 deps internal_deps new.
           probeLibrary env other examples library st = Inr (st4, deps, internal_deps)
           \<and> st' = finalize env library libIndex deps st4
           \<and> Log st' = Log st @ new
           \<and> classifyImported other library (observed new) ([], []) = Inr (deps, internal_deps)
           \<and> probed env library new
           \<and> indexJson st' = (indexJson st)[libIndex := (indexJson st ! libIndex)\<lparr>Requires := deps\<rparr>]
           \<and> previousRun st' = (previousRun st)(Name library \<mapsto> True)"
proof -
  from assms obtain st4 deps internal_deps where
    p: "probeLibrary env other examples library st = Inr (st4, deps, internal_deps)"
    and s: "st' = finalize env library libIndex deps st4"
    by (auto simp: processLibrary_def split: sum.splits)
  from probeLibrary_Inr[OF p] obtain fqbn new where
    n0: "Log st4 = Log st @ new"
       "classifyImported other library (observed new) ([], []) = Inr (deps, internal_deps)"
       "\<exists>imported err. Build fqbn (sketchOf env library) imported err \<in> set new"
       "indexJson st4 = indexJson st" "previousRun st4 = previousRun st"
    by blast
  from n0(3) have "probed env library new" by (force simp: probed_def)
  note n = n0(1,2) this n0(4,5)
  obtain new5 where n5: "Log st' = Log st4 @ new5" "observed new5 = []"
    using finalize_Log[of env library libIndex deps st4] unfolding s by blast
  let ?new = "new @ new5"
  have "Log st' = Log st @ ?new" using n(1) n5(1) by simp
  moreover have "observed ?new = observed new" using n5(2) by (simp add: observed_append)
  moreover have "probed env library ?new" using n(3) by (auto simp: probed_def)
  ultimately show ?thesis using p s n(2,4,5)
    by (intro exI[of _ st4] exI[of _ deps] exI[of _ internal_deps] exI[of _ ?new])
       (simp add: finalize_fields)
qed

lemma processLibrary_Inl:
  "processLibrary env other examples library libIndex st = Inl (a, lg) \<Longrightarrow>
     a = Panic \<and> (other = [] \<or> Archs library = [])"
  by (auto simp: processLibrary_def split: sum.splits dest: probeLibrary_Inl)

lemma processLibrary_total:
  assumes "other \<noteq> []" and "Archs library \<noteq> []"
  shows "\<exists>st'. processLibrary env other examples library libIndex st = Inr st'"
  using probeLibrary_total[OF assms, of env examples st]
  by (auto simp: processLibrary_def)

lemma indexJsonContainsFrom_keys:
  "map (\<lambda>e. (LibraryName e, IdxVersion e)) xs = map (\<lambda>e. (LibraryName e, IdxVersion e)) ys \<Longrightarrow>
     indexJsonContainsFrom n xs a b = indexJsonContainsFrom n ys a b"
proof (induction xs arbitrary: ys n)
  case Nil
  then show ?case by simp
next
  case (Cons x xs)
  then obtain y ys' where ys: "ys = y # ys'" by (cases ys) auto
  with Cons.prems have "LibraryName x = LibraryName y" "IdxVersion x = IdxVersion y"
    "map (\<lambda>e. (LibraryName e, IdxVersion e)) xs = map (\<lambda>e. (LibraryName e, IdxVersion e)) ys'"
    by simp_all
  then show ?case using Cons.IH[of ys' "n + 1"] ys by simp
qed

lemma indexJsonContainsFrom_range:
  "0 \<le> n \<Longrightarrow> indexJsonContainsFrom n xs a b \<noteq> -1 \<Longrightarrow>
     n \<le> indexJsonContainsFrom n xs a b
     \<and> indexJsonContainsFrom n xs a b < n + int (length xs)
     \<and> LibraryName (xs ! nat (indexJsonContainsFrom n xs a b - n)) = a
     \<and> IdxVersion (xs ! nat (indexJsonContainsFrom n xs a b - n)) = b"
proof (induction xs arbitrary: n)
  case Nil
  then show ?case by simp
next
  case (Cons x xs)
  show ?case
  proof (cases "LibraryName x = a \<and> IdxVersion x = b")
    case True
    then show ?thesis by simp
  next
    case False
    with Cons.prems have ne: "indexJsonContainsFrom (n + 1) xs a b \<noteq> -1" by auto
    from Cons.IH[OF _ ne] Cons.prems(1)
    have ih: "n + 1 \<le> indexJsonContainsFrom (n + 1) xs a b"
      "indexJsonContainsFrom (n + 1) xs a b < n + 1 + int (length xs)"
      "LibraryName (xs ! nat (indexJsonContainsFrom (n + 1) xs a b - (n + 1))) = a"
      "IdxVersion (xs ! nat (indexJsonContainsFrom (n + 1) xs a b - (n + 1))) = b"
      by simp_all
    have "nat (indexJsonContainsFrom (n + 1) xs a b - n)
            = Suc (nat (indexJsonContainsFrom (n + 1) xs a b - (n + 1)))"
      using ih(1) by simp
    with False ih show ?thesis by (auto simp: )
  qed
qed

lemma inCatalog_entry:
  assumes "inCatalog index library"
  shows "nat (indexJsonContains index (RealName library) (Version library)) < length index
       \<and> LibraryName (index ! nat (indexJsonContains index (RealName library) (Version library)))
           = RealName library
       \<and> IdxVersion (index ! nat (indexJsonContains index (RealName library) (Version library)))
           = Version library"
  using indexJsonContainsFrom_range[of 0 index "RealName library" "Version library"] assms
  by (auto simp: inCatalog_def indexJsonContains_def)

lemma keys_update:
  "map (\<lambda>e. (LibraryName e, IdxVersion e)) (xs[i := (xs ! i)\<lparr>Requires := d\<rparr>])
     = map (\<lambda>e. (LibraryName e, IdxVersion e)) xs"
  by (simp add: map_update) (metis (mono_tags, lifting) list_update_id map_update)

lemma inCatalog_keys:
  "map (\<lambda>e. (LibraryName e, IdxVersion e)) xs = map (\<lambda>e. (LibraryName e, IdxVersion e)) ys \<Longrightarrow>
     inCatalog xs library = inCatalog ys library"
  by (simp add: inCatalog_def indexJsonContains_def indexJsonContainsFrom_keys[of xs ys])

lemma probed_append: "probed env library (xs @ ys) = (probed env library xs \<or> probed env library ys)"
  by (auto simp: probed_def)

lemma mainLoop_step:
  "mainLoop env other force examples (library # libraries) st =
     (if \<not> inCatalog (indexJson st) library then mainLoop env other force examples libraries st
      else if previousRun st (Name library) = Some True \<and> \<not> force
        then mainLoop env other force examples libraries st
      else (case processLibrary env other examples library
                   (nat (indexJsonContains (indexJson st) (RealName library) (Version library))) st of
              Inl a \<Rightarrow> Inl a
            | Inr st1 \<Rightarrow> mainLoop env other force examples libraries st1))"
  by (simp add: Let_def inCatalog_def)

lemma mainLoop_Inr:
  assumes "mainLoop env other force examples libraries st = Inr st'"
  shows "\<exists>new. Log st' = Log st @ new
           \<and> map (\<lambda>e. (LibraryName e, IdxVersion e)) (indexJson st')
               = map (\<lambda>e. (LibraryName e, IdxVersion e)) (indexJson st)
           \<and> (\<forall>k. previousRun st k = Some True \<longrightarrow> previousRun st' k = Some True)
           \<and> dom (previousRun st) \<subseteq> dom (previousRun st')
           \<and> (\<forall>library \<in> set libraries. inCatalog (indexJson st) library \<longrightarrow>
                 previousRun st' (Name library) = Some True
                 \<and> (force \<longrightarrow> probed env library new))"
  using assms
proof (induction libraries arbitrary: st)
  case Nil
  then show ?case by simp
next
  case (Cons library libraries)
  let ?i = "nat (indexJsonContains (indexJson st) (RealName library) (Version library))"
  let ?skip = "\<not> inCatalog (indexJson st) library
                \<or> (previousRun st (Name library) = Some True \<and> \<not> force)"
  show ?case
  proof (cases ?skip)
    case True
    with Cons.prems have "mainLoop env other force examples libraries st = Inr st'"
      by (auto simp: mainLoop_step simp del: mainLoop.simps split: if_splits)
    from Cons.IH[OF this] obtain new where
      n: "Log st' = Log st @ new"
         "map (\<lambda>e. (LibraryName e, IdxVersion e)) (indexJson st')
               = map (\<lambda>e. (LibraryName e, IdxVersion e)) (indexJson st)"
         "\<forall>k. previousRun st k = Some True \<longrightarrow> previousRun st' k = Some True"
         "dom (previousRun st) \<subseteq> dom (previousRun st')"
         "\<forall>library \<in> set libraries. inCatalog (indexJson st) library \<longrightarrow>
                 previousRun st' (Name library) = Some True
                 \<and> (force \<longrightarrow> probed env library new)"
      by blast
    have "inCatalog (indexJson st) library \<longrightarrow>
                 previousRun st' (Name library) = Some True
                 \<and> (force \<longrightarrow> probed env library new)"
      using True n(3) by auto
    with n show ?thesis by (intro exI[of _ new]) simp
  next
    case False
    then have inc: "inCatalog (indexJson st) library" by simp
    from False Cons.prems obtain st1 where
      p: "processLibrary env other examples library ?i st = Inr st1"
      and r: "mainLoop env other force examples libraries st1 = Inr st'"
      by (auto simp: mainLoop_step simp del: mainLoop.simps split: sum.splits)
    from processLibrary_Inr[OF p] obtain deps new1 where
      n1: "Log st1 = Log st @ new1" "probed env library new1"
          "indexJson st1 = (indexJson st)[?i := (indexJson st ! ?i)\<lparr>Requires := deps\<rparr>]"
          "previousRun st1 = (previousRun st)(Name library \<mapsto> True)"
      by blast
    have k1: "map (\<lambda>e. (LibraryName e, IdxVersion e)) (indexJson st1)
               = map (\<lambda>e. (LibraryName e, IdxVersion e)) (indexJson st)"
      unfolding n1(3) by (rule keys_update)
    from Cons.IH[OF r] obtain new where
      n: "Log st' = Log st1 @ new"
         "map (\<lambda>e. (LibraryName e, IdxVersion e)) (indexJson st')
               = map (\<lambda>e. (LibraryName e, IdxVersion e)) (indexJson st1)"
         "\<forall>k. previousRun st1 k = Some True \<longrightarrow> previousRun st' k = Some True"
         "dom (previousRun st1) \<subseteq> dom (previousRun st')"
         "\<forall>library \<in> set libraries. inCatalog (indexJson st1) library \<longrightarrow>
                 previousRun st' (Name library) = Some True
                 \<and> (force \<longrightarrow> probed env library new)"
      by blast
    let ?new = "new1 @ new"
    have a: "Log st' = Log st @ ?new" using n(1) n1(1) by simp
    have b: "map (\<lambda>e. (LibraryName e, IdxVersion e)) (indexJson st')
               = map (\<lambda>e. (LibraryName e, IdxVersion e)) (indexJson st)"
      using n(2) k1 by simp
    have c: "\<forall>k. previousRun st k = Some True \<longrightarrow> previousRun st' k = Some True"
      using n(3) n1(4) by auto
    have d: "dom (previousRun st) \<subseteq> dom (previousRun st')"
      using n(4) n1(4) by auto
    have e: "\<forall>l \<in> set (library # libraries). inCatalog (indexJson st) l \<longrightarrow>
                 previousRun st' (Name l) = Some True
                 \<and> (force \<longrightarrow> probed env l ?new)"
    proof (intro ballI impI)
      fix l assume l: "l \<in> set (library # libraries)" and il: "inCatalog (indexJson st) l"
      show "previousRun st' (Name l) = Some True \<and> (force \<longrightarrow> probed env l ?new)"
      proof (cases "l = library")
        case True
        then show ?thesis using n(3) n1(2,4) by (simp add: probed_append)
      next
        case False
        with l have "l \<in> set libraries" by simp
        moreover have "inCatalog (indexJson st1) l" using il inCatalog_keys[OF k1] by simp
        ultimately show ?thesis using n(5) by (auto simp: probed_append)
      qed
    qed
    from a b c d e show ?thesis by (intro exI[of _ ?new]) simp
  qed
qed

lemma mainLoop_Inl:
  "mainLoop env other force examples libraries st = Inl (a, lg) \<Longrightarrow> a = Panic"
proof (induction libraries arbitrary: st)
  case Nil
  then show ?case by simp
next
  case (Cons library libraries)
  then show ?case
    by (auto simp: Let_def split: if_splits sum.splits dest: processLibrary_Inl)
qed

lemma mainLoop_total:
  assumes "other \<noteq> []" and "\<forall>library \<in> set libraries. Archs library \<noteq> []"
  shows "\<exists>st'. mainLoop env other force examples libraries st = Inr st'"
  using assms(2)
proof (induction libraries arbitrary: st)
  case Nil
  then show ?case by simp
next
  case (Cons library libraries)
  let ?i = "nat (indexJsonContains (indexJson st) (RealName library) (Version library))"
  from Cons.prems have "Archs library \<noteq> []" by simp
  from processLibrary_total[OF assms(1) this, of env examples ?i st]
  obtain st1 where p: "processLibrary env other examples library ?i st = Inr st1" by blast
  from Cons.IH Cons.prems have ih: "\<And>s. \<exists>st'. mainLoop env other force examples libraries s = Inr st'"
    by simp
  show ?case using p ih[of st] ih[of st1]
    by (auto simp: mainLoop_step simp del: mainLoop.simps)
qed



lemma demo_env:
  "Unquote demoEnv = Inr" "Stat demoEnv = (\<lambda>p. None)" "EnsureFolderExists demoEnv = (\<lambda>p. None)"
  "ReadFile demoEnv = (\<lambda>p. if p = ''index.json'' then Some ''catalog'' else None)"
  "UnmarshalCache demoEnv = (\<lambda>s. Inl ''unexpected end of JSON input'')"
  "UnmarshalIndex demoEnv = (\<lambda>s. if s = ''catalog'' then Inr demoIndex
                             else Inl ''unexpected end of JSON input'')"
  "ParseHardware demoEnv = (\<lambda>hardware tools other builtin. (0, [libA, libServo, libB]))"
  "RunBuilder demoEnv = demoBuilder" "Apply demoEnv = (\<lambda>w e. w)"
  "TempDir demoEnv = (\<lambda>prefix. ''/tmp/'' @ prefix)" "AbsPath demoEnv = (\<lambda>p. p)"
  "Join demoEnv = demoJoin" "ReadDir demoEnv = demoReadDir"
  "JaroWinklerDistance demoEnv = (\<lambda>a b. if a = b @ ''.h'' then 1 else 0)"
  by (simp_all add: demoEnv_def)

lemma classified_sets:
  assumes r: "classifyImported other library imported ([], []) = Inr (deps, internal_deps)"
  shows "set deps \<inter> set internal_deps = {}
     \<and> set deps \<union> set internal_deps
         = {RealName d |d. d \<in> set imported \<and> RealName d \<noteq> RealName library}
     \<and> (\<forall>d \<in> set imported. RealName d \<noteq> RealName library \<longrightarrow>
           (\<exists>f other0 rest. other = other0 # rest
              \<and> firstNamed (RealName d) imported = Some f
              \<and> (RealName d \<in> set deps \<longleftrightarrow> folderContains other0 f)
              \<and> (RealName d \<in> set internal_deps \<longleftrightarrow> \<not> folderContains other0 f)))"
proof (cases other)
  case Nil
  with r have none: "\<not> (\<exists>d\<in>set imported. RealName d \<noteq> RealName library)"
    and e: "deps = []" "internal_deps = []"
    by (auto simp: classifyImported_no_other split: if_splits)
  then show ?thesis by auto
next
  case (Cons other0 rest)
  note r' = r[unfolded Cons]
  note s = classifyImported_sets[OF r']
  have dist: "distinct (deps @ internal_deps)"
    using classifyImported_distinct[OF r] by simp
  have disj: "set deps \<inter> set internal_deps = {}"
    using dist by auto
  have first: "\<forall>d \<in> set imported. RealName d \<noteq> RealName library \<longrightarrow>
           (\<exists>f other0' rest'. other = other0' # rest'
              \<and> firstNamed (RealName d) imported = Some f
              \<and> (RealName d \<in> set deps \<longleftrightarrow> folderContains other0' f)
              \<and> (RealName d \<in> set internal_deps \<longleftrightarrow> \<not> folderContains other0' f))"
  proof (intro ballI impI)
    fix d assume d: "d \<in> set imported" and n: "RealName d \<noteq> RealName library"
    from firstNamed_Some[OF d] obtain f where f: "firstNamed (RealName d) imported = Some f" by auto
    have "(RealName d \<in> set deps \<longleftrightarrow> folderContains other0 f)
              \<and> (RealName d \<in> set internal_deps \<longleftrightarrow> \<not> folderContains other0 f)"
      using f n s by (auto simp: folderContains_def)
    with f Cons show "\<exists>f other0' rest'. other = other0' # rest'
              \<and> firstNamed (RealName d) imported = Some f
              \<and> (RealName d \<in> set deps \<longleftrightarrow> folderContains other0' f)
              \<and> (RealName d \<in> set internal_deps \<longleftrightarrow> \<not> folderContains other0' f)"
      by blast
  qed
  have union: "set deps \<union> set internal_deps
         = {RealName d |d. d \<in> set imported \<and> RealName d \<noteq> RealName library}"
  proof (intro set_eqI iffI)
    fix n assume "n \<in> set deps \<union> set internal_deps"
    then obtain f where "firstNamed n imported = Some f" "n \<noteq> RealName library"
      using s by auto
    then show "n \<in> {RealName d |d. d \<in> set imported \<and> RealName d \<noteq> RealName library}"
      using firstNamed_props by fastforce
  next
    fix n assume "n \<in> {RealName d |d. d \<in> set imported \<and> RealName d \<noteq> RealName library}"
    then obtain d where "d \<in> set imported" "RealName d \<noteq> RealName library" "n = RealName d"
      by auto
    then show "n \<in> set deps \<union> set internal_deps"
      using first by blast
  qed
  from disj union first show ?thesis by blast
qed

lemma testAgrees_single:
  "testAgrees (other0 # rest) [f] \<longleftrightarrow> (folderContains other0 f = underOtherRoots (other0 # rest) f)"
  by (simp add: testAgrees_def)

lemma testAgrees_Nil: "\<not> testAgrees [] imported"
  by (simp add: testAgrees_def)

section \<open>The dependency classifier\<close>

text \<open>
  Claim C2, as the code has it. The probes of a library (the generated sketch, then one
  run per example when the examples are built) complete whenever an "other libraries"
  folder is configured and the library declares an architecture. When they complete,
  the lists \<open>deps\<close> and \<open>internal_deps\<close> they leave share no name, and together hold
  exactly the names, other than the name of the probed library, of the libraries that
  the runs of the builder imported. Which list a name is in is decided by the first
  imported library that bears the name; where the test of the code agrees with the rule
  of the specification for that library, the name is among the externally distributed
  ones exactly when its folder lies under a configured "other libraries" folder.
\<close>

theorem classification_across_probes:
  "(other \<noteq> [] \<and> Archs library \<noteq> [] \<longrightarrow>
      (\<exists>r. probeLibrary env other examples library st = Inr r))
   \<and> (\<forall>st' deps internal_deps.
        probeLibrary env other examples library st = Inr (st', deps, internal_deps) \<longrightarrow>
        (\<exists>new. Log st' = Log st @ new
           \<and> length (filter isBuild new)
               = 1 + (if examples then length (examplesOf env library) else 0)
           \<and> set deps \<inter> set internal_deps = {}
           \<and> set deps \<union> set internal_deps
               = {RealName d |d. d \<in> set (observed new) \<and> RealName d \<noteq> RealName library}
           \<and> (\<forall>d \<in> set (observed new). RealName d \<noteq> RealName library \<longrightarrow>
                 (\<exists>f. firstNamed (RealName d) (observed new) = Some f
                    \<and> (testAgrees other [f] \<longrightarrow>
                         (RealName d \<in> set deps \<longleftrightarrow> underOtherRoots other f)
                         \<and> (RealName d \<in> set internal_deps \<longleftrightarrow> \<not> underOtherRoots other f))))))"
proof (intro conjI impI allI)
  assume "other \<noteq> [] \<and> Archs library \<noteq> []"
  then show "\<exists>r. probeLibrary env other examples library st = Inr r"
    using probeLibrary_total[of other library env examples st] by simp
next
  fix st' deps internal_deps
  assume p: "probeLibrary env other examples library st = Inr (st', deps, internal_deps)"
  from probeLibrary_Inr[OF p] obtain new where
    n: "Log st' = Log st @ new"
       "classifyImported other library (observed new) ([], []) = Inr (deps, internal_deps)"
       "length (filter isBuild new)
               = 1 + (if examples then length (examplesOf env library) else 0)"
    by blast
  note c = classified_sets[OF n(2)]
  have "\<forall>d \<in> set (observed new). RealName d \<noteq> RealName library \<longrightarrow>
                 (\<exists>f. firstNamed (RealName d) (observed new) = Some f
                    \<and> (testAgrees other [f] \<longrightarrow>
                         (RealName d \<in> set deps \<longleftrightarrow> underOtherRoots other f)
                         \<and> (RealName d \<in> set internal_deps \<longleftrightarrow> \<not> underOtherRoots other f)))"
  proof (intro ballI impI)
    fix d assume "d \<in> set (observed new)" "RealName d \<noteq> RealName library"
    with c obtain f other0 rest where
      f: "other = other0 # rest" "firstNamed (RealName d) (observed new) = Some f"
         "RealName d \<in> set deps \<longleftrightarrow> folderContains other0 f"
         "RealName d \<in> set internal_deps \<longleftrightarrow> \<not> folderContains other0 f"
      by blast
    then show "\<exists>f. firstNamed (RealName d) (observed new) = Some f
                    \<and> (testAgrees other [f] \<longrightarrow>
                         (RealName d \<in> set deps \<longleftrightarrow> underOtherRoots other f)
                         \<and> (RealName d \<in> set internal_deps \<longleftrightarrow> \<not> underOtherRoots other f))"
      by (auto simp: testAgrees_single)
  qed
  with n(1,3) c
  show "\<exists>new. Log st' = Log st @ new
           \<and> length (filter isBuild new)
               = 1 + (if examples then length (examplesOf env library) else 0)
           \<and> set deps \<inter> set internal_deps = {}
           \<and> set deps \<union> set internal_deps
               = {RealName d |d. d \<in> set (observed new) \<and> RealName d \<noteq> RealName library}
           \<and> (\<forall>d \<in> set (observed new). RealName d \<noteq> RealName library \<longrightarrow>
                 (\<exists>f. firstNamed (RealName d) (observed new) = Some f
                    \<and> (testAgrees other [f] \<longrightarrow>
                         (RealName d \<in> set deps \<longleftrightarrow> underOtherRoots other f)
                         \<and> (RealName d \<in> set internal_deps \<longleftrightarrow> \<not> underOtherRoots other f))))"
    by (intro exI[of _ new]) simp
qed

lemma demo_probe_B:
  "(case probeLibrary demoEnv [''/libs''] True libB demoState of
      Inl a \<Rightarrow> False
    | Inr (st', deps, internal_deps) \<Rightarrow>
        deps = [''A'', ''Servo''] \<and> internal_deps = [''Wire'']
        \<and> observed (Log st') = [libB, libA, libWire, libA, libB, libServo, libWire, libB])"
  by code_simp

lemma demo_examples_B: "length (examplesOf demoEnv libB) = 2"
  by code_simp

lemma demo_servo_first:
  "firstNamed ''Servo'' [libB, libA, libWire, libA, libB, libServo, libWire, libB] = Some libServo"
  "firstNamed ''Wire'' [libB, libA, libWire, libA, libB, libServo, libWire, libB] = Some libWire"
  "testAgrees [''/libs''] [libServo]" "testAgrees [''/libs''] [libWire]"
  "underOtherRoots [''/libs''] libServo" "\<not> underOtherRoots [''/libs''] libWire"
  "RealName libServo \<noteq> RealName libB" "RealName libWire \<noteq> RealName libB"
  "RealName libServo = ''Servo''" "RealName libWire = ''Wire''"
  by code_simp+

theorem classification_across_probes_witness:
  "\<exists>st' deps internal_deps new.
     probeLibrary demoEnv [''/libs''] True libB demoState = Inr (st', deps, internal_deps)
     \<and> Log st' = Log demoState @ new
     \<and> length (filter isBuild new) = 3
     \<and> set deps \<inter> set internal_deps = {}
     \<and> ''Servo'' \<in> set deps \<and> ''Wire'' \<in> set internal_deps"
proof -
  obtain st' where p: "probeLibrary demoEnv [''/libs''] True libB demoState
                         = Inr (st', [''A'', ''Servo''], [''Wire''])"
    and o: "observed (Log st') = [libB, libA, libWire, libA, libB, libServo, libWire, libB]"
    using demo_probe_B by (auto split: sum.splits)
  from classification_across_probes[of "[''/libs'']" libB demoEnv True demoState] p
  obtain new where n: "Log st' = Log demoState @ new"
    "length (filter isBuild new) = 1 + (if True then length (examplesOf demoEnv libB) else 0)"
    "set [''A'', ''Servo''] \<inter> set [''Wire''] = {}"
    "\<forall>d \<in> set (observed new). RealName d \<noteq> RealName libB \<longrightarrow>
                 (\<exists>f. firstNamed (RealName d) (observed new) = Some f
                    \<and> (testAgrees [''/libs''] [f] \<longrightarrow>
                         (RealName d \<in> set [''A'', ''Servo''] \<longleftrightarrow> underOtherRoots [''/libs''] f)
                         \<and> (RealName d \<in> set [''Wire''] \<longleftrightarrow> \<not> underOtherRoots [''/libs''] f)))"
    by blast
  have on: "observed new = [libB, libA, libWire, libA, libB, libServo, libWire, libB]"
    using o n(1) by (simp add: demoState_def)
  have s: "libServo \<in> set (observed new)" "libWire \<in> set (observed new)" by (simp_all add: on)
  from n(4) s(1) demo_servo_first have a: "''Servo'' \<in> set [''A'', ''Servo'']"
    by (fastforce simp: on)
  from n(4) s(2) demo_servo_first have b: "''Wire'' \<in> set [''Wire'']"
    by (fastforce simp: on)
  from p n(1,2,3) a b demo_examples_B show ?thesis by auto
qed

text \<open>
  Claim C2 as stated fails. A library imported after a namesake from another folder is
  not placed by its own folder: the probe of \<open>B\<close> imports the \<open>Servo\<close> of the core, its
  first example the \<open>Servo\<close> under \<open>/libs\<close>, and the name stays with the locally
  provided ones. A library that shares the name of the probed library is in neither
  list. With no "other libraries" folder the loop panics. The test of the code is not
  the rule: \<open>/libs2/Sib\<close> contains \<open>/libs\<close> without lying under it, and a second
  configured folder is never consulted.
\<close>

theorem classifier_departs_from_folder_rule:
  "(case probeLibrary (demoEnv\<lparr>RunBuilder := twoServos\<rparr>) [''/libs''] True libB demoState of
      Inl a \<Rightarrow> False
    | Inr (st', deps, internal_deps) \<Rightarrow>
        deps = [] \<and> internal_deps = [''Servo''] \<and> libServo \<in> set (observed (Log st')))
   \<and> underOtherRoots [''/libs''] libServo
   \<and> classifyImported [''/libs''] libServo [libServo, libServoCore, libWire] ([], [])
       = Inr ([], [''Wire''])
   \<and> libServoCore \<noteq> libServo
   \<and> classifyImported [] libB [libB, libA] ([], []) = Inl Panic
   \<and> classifyImported [''/libs''] libB [libB, libSib] ([], [])
       = Inr ([''Sib''], [])
   \<and> \<not> underOtherRoots [''/libs''] libSib
   \<and> classifyImported [''/libs'', ''/extra''] libB
         [libB, libFoo] ([], [])
       = Inr ([], [''Foo''])
   \<and> underOtherRoots [''/libs'', ''/extra''] libFoo"
  by code_simp

section \<open>No "other libraries" folder\<close>

lemma probeLibrary_no_other_Inr:
  assumes "probeLibrary env [] examples library st = Inr (st', deps, internal_deps)"
  shows "deps = [] \<and> internal_deps = []
         \<and> (\<exists>new. Log st' = Log st @ new
               \<and> (\<forall>d \<in> set (observed new). RealName d = RealName library))"
proof -
  from probeLibrary_Inr[OF assms] obtain new where
    n: "Log st' = Log st @ new"
       "classifyImported [] library (observed new) ([], []) = Inr (deps, internal_deps)"
    by blast
  from n(2) have "deps = [] \<and> internal_deps = []
                   \<and> (\<forall>d \<in> set (observed new). RealName d = RealName library)"
    by (auto simp: classifyImported_no_other split: if_splits)
  with n(1) show ?thesis by blast
qed

text \<open>
  Claim C10, as the code has it. With an empty list of "other libraries" folders the
  probes of a library end in a panic or leave both lists empty, and they leave them
  empty only when every library that the runs of the builder imported bears the name of
  the probed library. When the probe of the generated sketch imports a library of
  another name, the classification loop panics at once, and with it the body of the
  loop and the loop of \<open>main\<close>.
\<close>

theorem no_other_folder_panics:
  "(\<forall>a lg. probeLibrary env [] examples library st = Inl (a, lg) \<longrightarrow> a = Panic)
   \<and> (\<forall>st' deps internal_deps.
        probeLibrary env [] examples library st = Inr (st', deps, internal_deps) \<longrightarrow>
        deps = [] \<and> internal_deps = []
        \<and> (\<exists>new. Log st' = Log st @ new
              \<and> (\<forall>d \<in> set (observed new). RealName d = RealName library)))
   \<and> (\<forall>fqbn st2 err.
        targetProfile (FQBN (linkFolder env library st)) library = Inr fqbn
        \<and> primaryProbe env library ((linkFolder env library st)\<lparr>FQBN := fqbn\<rparr>) = (st2, err)
        \<and> (\<exists>d \<in> set (ImportedLibraries st2). RealName d \<noteq> RealName library) \<longrightarrow>
        classifyImported [] library (ImportedLibraries st2) ([], []) = Inl Panic
        \<and> probeLibrary env [] examples library st = Inl (Panic, Log st2)
        \<and> processLibrary env [] examples library libIndex st = Inl (Panic, Log st2)
        \<and> (inCatalog (indexJson st) library
             \<and> \<not> (previousRun st (Name library) = Some True \<and> \<not> force) \<longrightarrow>
            mainLoop env [] force examples (library # libraries) st = Inl (Panic, Log st2)))"
proof (intro conjI allI impI)
  fix a lg assume "probeLibrary env [] examples library st = Inl (a, lg)"
  then show "a = Panic" using probeLibrary_Inl by blast
next
  fix st' deps internal_deps
  assume p: "probeLibrary env [] examples library st = Inr (st', deps, internal_deps)"
  from probeLibrary_no_other_Inr[OF p]
  show "deps = []" "internal_deps = []"
    "\<exists>new. Log st' = Log st @ new \<and> (\<forall>d \<in> set (observed new). RealName d = RealName library)"
    by simp_all
next
  fix fqbn st2 err
  assume a: "targetProfile (FQBN (linkFolder env library st)) library = Inr fqbn
        \<and> primaryProbe env library ((linkFolder env library st)\<lparr>FQBN := fqbn\<rparr>) = (st2, err)
        \<and> (\<exists>d \<in> set (ImportedLibraries st2). RealName d \<noteq> RealName library)"
  then show c: "classifyImported [] library (ImportedLibraries st2) ([], []) = Inl Panic"
    by (simp add: classifyImported_no_other)
  from a c show p: "probeLibrary env [] examples library st = Inl (Panic, Log st2)"
    by (simp add: probeLibrary_def Let_def)
  then show q: "processLibrary env [] examples library libIndex st = Inl (Panic, Log st2)"
    by (simp add: processLibrary_def)
  assume "inCatalog (indexJson st) library
             \<and> \<not> (previousRun st (Name library) = Some True \<and> \<not> force)"
  then show "mainLoop env [] force examples (library # libraries) st = Inl (Panic, Log st2)"
    using p by (auto simp: mainLoop_step processLibrary_def simp del: mainLoop.simps)
qed

lemma demo_no_other:
  "(case primaryProbe demoEnv libB ((linkFolder demoEnv libB demoState)\<lparr>FQBN := ''arduino:avr:micro''\<rparr>) of
      (st2, err) \<Rightarrow> libA \<in> set (ImportedLibraries st2))"
  "targetProfile (FQBN (linkFolder demoEnv libB demoState)) libB = Inr ''arduino:avr:micro''"
  "RealName libA \<noteq> RealName libB"
  "inCatalog (indexJson demoState) libB"
  "previousRun demoState (Name libB) = None"
  by code_simp+

theorem no_other_folder_panics_witness:
  "\<exists>lg. mainLoop demoEnv [] False True [libB, libA] demoState = Inl (Panic, lg)
        \<and> probeLibrary demoEnv [] True libB demoState = Inl (Panic, lg)"
proof -
  obtain st2 err where
    p: "primaryProbe demoEnv libB ((linkFolder demoEnv libB demoState)\<lparr>FQBN := ''arduino:avr:micro''\<rparr>)
          = (st2, err)"
    by (cases "primaryProbe demoEnv libB ((linkFolder demoEnv libB demoState)\<lparr>FQBN := ''arduino:avr:micro''\<rparr>)")
  with demo_no_other(1) have i: "libA \<in> set (ImportedLibraries st2)" by simp
  with demo_no_other(3) have e: "\<exists>d \<in> set (ImportedLibraries st2). RealName d \<noteq> RealName libB"
    by blast
  from no_other_folder_panics[of demoEnv True libB demoState 1 False "[libA]"]
       demo_no_other(2,4,5) p e
  show ?thesis by auto
qed

text \<open>
  Claim C10 as stated fails: a library other than the probed one, but of its name, is
  passed over before the folder list is read, so nothing panics. The probe of the
  \<open>Servo\<close> in \<open>/libs\<close> imports the \<open>Servo\<close> of the core, an older version in another
  folder, and ends with both lists empty.
\<close>

theorem namesake_of_probed_library_does_not_panic:
  "(case probeLibrary (demoEnv\<lparr>RunBuilder := servoPair\<rparr>) [] True libServo demoState of
      Inl a \<Rightarrow> False
    | Inr (st', deps, internal_deps) \<Rightarrow>
        deps = [] \<and> internal_deps = [] \<and> libServoCore \<in> set (observed (Log st')))
   \<and> libServoCore \<noteq> libServo
   \<and> Version libServoCore \<noteq> Version libServo
   \<and> Folder libServoCore \<noteq> Folder libServo"
  by code_simp

section \<open>The dependencies written back\<close>

lemma finalize_Log2:
  "\<exists>new. Log (finalize env library libIndex deps st) = Log st @ new \<and> observed new = []
     \<and> filter isBuild new = []"
  by (simp add: finalize_def Let_def emit_fields isBuild_def)

lemma classified_distinct:
  assumes "classifyImported other library imported ([], []) = Inr (deps, internal_deps)"
  shows "distinct deps \<and> RealName library \<notin> set deps"
  using classifyImported_distinct[OF assms] by simp

text \<open>
  Claim C1, as the code has it. A library at its turn in the loop, found in the catalog
  and not passed over, is processed before the loop goes on; when the loop returns, the
  entry of the catalog that \<open>indexJsonContains\<close> found bears the name and version of
  the library, and the \<open>Requires\<close> written into it holds no name twice, does not hold
  the name of the library, and holds only names of libraries that the runs of the
  builder for this library imported (the generated sketch, then every example when the
  examples are built). A name other than the name of the library is in \<open>Requires\<close> or
  not according to the first imported library that bears it; where the test of the code
  agrees with the rule of the specification for that library, the name is in \<open>Requires\<close>
  exactly when its folder lies under a configured "other libraries" folder. No other
  entry of the catalog changes.
\<close>

theorem requires_written_back:
  "inCatalog (indexJson st) library
   \<and> \<not> (previousRun st (Name library) = Some True \<and> \<not> force)
   \<and> mainLoop env other force examples (library # libraries) st = Inr stEnd
   \<and> i = nat (indexJsonContains (indexJson st) (RealName library) (Version library)) \<longrightarrow>
   (\<exists>st' new.
      processLibrary env other examples library i st = Inr st'
      \<and> mainLoop env other force examples libraries st' = Inr stEnd
      \<and> Log st' = Log st @ new
      \<and> length (filter isBuild new)
          = 1 + (if examples then length (examplesOf env library) else 0)
      \<and> i < length (indexJson st')
      \<and> LibraryName (indexJson st' ! i) = RealName library
      \<and> IdxVersion (indexJson st' ! i) = Version library
      \<and> distinct (Requires (indexJson st' ! i))
      \<and> RealName library \<notin> set (Requires (indexJson st' ! i))
      \<and> set (Requires (indexJson st' ! i)) \<subseteq> RealName ` set (observed new)
      \<and> (\<forall>d \<in> set (observed new). RealName d \<noteq> RealName library \<longrightarrow>
            (\<exists>f. firstNamed (RealName d) (observed new) = Some f
               \<and> (testAgrees other [f] \<longrightarrow>
                    (RealName d \<in> set (Requires (indexJson st' ! i))
                       \<longleftrightarrow> underOtherRoots other f))))
      \<and> length (indexJson st') = length (indexJson st)
      \<and> (\<forall>j. j \<noteq> i \<longrightarrow> indexJson st' ! j = indexJson st ! j))"
proof (intro impI)
  assume a: "inCatalog (indexJson st) library
   \<and> \<not> (previousRun st (Name library) = Some True \<and> \<not> force)
   \<and> mainLoop env other force examples (library # libraries) st = Inr stEnd
   \<and> i = nat (indexJsonContains (indexJson st) (RealName library) (Version library))"
  then have inc: "inCatalog (indexJson st) library"
    and i: "i = nat (indexJsonContains (indexJson st) (RealName library) (Version library))"
    by simp_all
  from a obtain st' where
    p: "processLibrary env other examples library i st = Inr st'"
    and r: "mainLoop env other force examples libraries st' = Inr stEnd"
    by (auto simp: mainLoop_step simp del: mainLoop.simps split: sum.splits)
  from p obtain st4 deps internal_deps where
    q: "probeLibrary env other examples library st = Inr (st4, deps, internal_deps)"
    and s: "st' = finalize env library i deps st4"
    by (auto simp: processLibrary_def split: sum.splits)
  from probeLibrary_Inr[OF q] obtain new where
    n: "Log st4 = Log st @ new"
       "classifyImported other library (observed new) ([], []) = Inr (deps, internal_deps)"
       "length (filter isBuild new)
               = 1 + (if examples then length (examplesOf env library) else 0)"
       "indexJson st4 = indexJson st"
    by blast
  obtain new5 where n5: "Log st' = Log st4 @ new5" "observed new5 = []" "filter isBuild new5 = []"
    using finalize_Log2[of env library i deps st4] unfolding s by blast
  have ix: "indexJson st' = (indexJson st)[i := (indexJson st ! i)\<lparr>Requires := deps\<rparr>]"
    unfolding s by (simp add: finalize_fields n(4))
  from inCatalog_entry[OF inc] have e: "i < length (indexJson st)"
    "LibraryName (indexJson st ! i) = RealName library"
    "IdxVersion (indexJson st ! i) = Version library"
    unfolding i by simp_all
  have rq: "Requires (indexJson st' ! i) = deps" using e(1) by (simp add: ix)
  note c = classified_sets[OF n(2)] classified_distinct[OF n(2)]
  let ?new = "new @ new5"
  have o: "observed ?new = observed new" using n5(2) by (simp add: observed_append)
  from c(1) have u: "set deps \<union> set internal_deps
         = {RealName d |d. d \<in> set (observed new) \<and> RealName d \<noteq> RealName library}"
    by simp
  have sub: "set deps \<subseteq> RealName ` set (observed new)"
  proof
    fix n assume "n \<in> set deps"
    then have "n \<in> set deps \<union> set internal_deps" by simp
    then have "n \<in> {RealName d |d. d \<in> set (observed new) \<and> RealName d \<noteq> RealName library}"
      unfolding u .
    then show "n \<in> RealName ` set (observed new)" by auto
  qed
  from c(1) have cf: "\<forall>d \<in> set (observed new). RealName d \<noteq> RealName library \<longrightarrow>
           (\<exists>f other0 rest. other = other0 # rest
              \<and> firstNamed (RealName d) (observed new) = Some f
              \<and> (RealName d \<in> set deps \<longleftrightarrow> folderContains other0 f)
              \<and> (RealName d \<in> set internal_deps \<longleftrightarrow> \<not> folderContains other0 f))"
    by simp
  have first: "\<forall>d \<in> set (observed new). RealName d \<noteq> RealName library \<longrightarrow>
            (\<exists>f. firstNamed (RealName d) (observed new) = Some f
               \<and> (testAgrees other [f] \<longrightarrow>
                    (RealName d \<in> set deps \<longleftrightarrow> underOtherRoots other f)))"
  proof (intro ballI impI)
    fix d assume "d \<in> set (observed new)" "RealName d \<noteq> RealName library"
    with cf obtain f other0 rest where
      f: "other = other0 # rest" "firstNamed (RealName d) (observed new) = Some f"
         "RealName d \<in> set deps \<longleftrightarrow> folderContains other0 f"
      by blast
    then show "\<exists>f. firstNamed (RealName d) (observed new) = Some f
               \<and> (testAgrees other [f] \<longrightarrow>
                    (RealName d \<in> set deps \<longleftrightarrow> underOtherRoots other f))"
      by (auto simp: testAgrees_single)
  qed
  have "Log st' = Log st @ ?new" using n(1) n5(1) by simp
  moreover have "length (filter isBuild ?new)
          = 1 + (if examples then length (examplesOf env library) else 0)"
    using n(3) n5(3) by simp
  moreover have "i < length (indexJson st')" using e(1) by (simp add: ix)
  moreover have "LibraryName (indexJson st' ! i) = RealName library"
    "IdxVersion (indexJson st' ! i) = Version library"
    using e by (simp_all add: ix)
  moreover have "length (indexJson st') = length (indexJson st)" by (simp add: ix)
  moreover have "\<forall>j. j \<noteq> i \<longrightarrow> indexJson st' ! j = indexJson st ! j" by (simp add: ix)
  ultimately show "\<exists>st' new.
      processLibrary env other examples library i st = Inr st'
      \<and> mainLoop env other force examples libraries st' = Inr stEnd
      \<and> Log st' = Log st @ new
      \<and> length (filter isBuild new)
          = 1 + (if examples then length (examplesOf env library) else 0)
      \<and> i < length (indexJson st')
      \<and> LibraryName (indexJson st' ! i) = RealName library
      \<and> IdxVersion (indexJson st' ! i) = Version library
      \<and> distinct (Requires (indexJson st' ! i))
      \<and> RealName library \<notin> set (Requires (indexJson st' ! i))
      \<and> set (Requires (indexJson st' ! i)) \<subseteq> RealName ` set (observed new)
      \<and> (\<forall>d \<in> set (observed new). RealName d \<noteq> RealName library \<longrightarrow>
            (\<exists>f. firstNamed (RealName d) (observed new) = Some f
               \<and> (testAgrees other [f] \<longrightarrow>
                    (RealName d \<in> set (Requires (indexJson st' ! i))
                       \<longleftrightarrow> underOtherRoots other f))))
      \<and> length (indexJson st') = length (indexJson st)
      \<and> (\<forall>j. j \<noteq> i \<longrightarrow> indexJson st' ! j = indexJson st ! j)"
    using p r c(2) sub first
    by (intro exI[of _ st'] exI[of _ ?new]) (simp only: rq o simp_thms)
qed

lemma demo_run_B:
  "inCatalog (indexJson demoState) libB"
  "previousRun demoState (Name libB) = None"
  "nat (indexJsonContains (indexJson demoState) (RealName libB) (Version libB)) = 1"
  "(case mainLoop demoEnv [''/libs''] False True [libB] demoState of
      Inl a \<Rightarrow> False | Inr stEnd \<Rightarrow> True)"
  "(case processLibrary demoEnv [''/libs''] True libB 1 demoState of
      Inl a \<Rightarrow> False
    | Inr st' \<Rightarrow> observed (Log st') = [libB, libA, libWire, libA, libB, libServo, libWire, libB])"
  "RealName libB = ''B''"
  by code_simp+

theorem requires_written_back_witness:
  "\<exists>st' new.
     processLibrary demoEnv [''/libs''] True libB 1 demoState = Inr st'
     \<and> Log st' = Log demoState @ new
     \<and> length (filter isBuild new) = 3
     \<and> LibraryName (indexJson st' ! 1) = ''B''
     \<and> ''Servo'' \<in> set (Requires (indexJson st' ! 1))
     \<and> ''Wire'' \<notin> set (Requires (indexJson st' ! 1))"
proof -
  obtain stEnd where m: "mainLoop demoEnv [''/libs''] False True [libB] demoState = Inr stEnd"
    using demo_run_B(4) by (auto split: sum.splits)
  from requires_written_back[of demoState libB False demoEnv "[''/libs'']" True "[]" stEnd 1]
       demo_run_B(1,2,3) m
  obtain st' new where
    n: "processLibrary demoEnv [''/libs''] True libB 1 demoState = Inr st'"
       "Log st' = Log demoState @ new"
       "length (filter isBuild new)
          = 1 + (if True then length (examplesOf demoEnv libB) else 0)"
       "LibraryName (indexJson st' ! 1) = RealName libB"
       "\<forall>d \<in> set (observed new). RealName d \<noteq> RealName libB \<longrightarrow>
            (\<exists>f. firstNamed (RealName d) (observed new) = Some f
               \<and> (testAgrees [''/libs''] [f] \<longrightarrow>
                    (RealName d \<in> set (Requires (indexJson st' ! 1))
                       \<longleftrightarrow> underOtherRoots [''/libs''] f)))"
    by auto
  have o: "observed (Log st') = [libB, libA, libWire, libA, libB, libServo, libWire, libB]"
    using demo_run_B(5) n(1) by simp
  have on: "observed new = [libB, libA, libWire, libA, libB, libServo, libWire, libB]"
    using o n(2) by (simp add: demoState_def)
  have s: "libServo \<in> set (observed new)" "libWire \<in> set (observed new)" by (simp_all add: on)
  from n(5) s(1) demo_servo_first have a: "''Servo'' \<in> set (Requires (indexJson st' ! 1))"
    by (fastforce simp: on)
  from n(5) s(2) demo_servo_first have b: "''Wire'' \<notin> set (Requires (indexJson st' ! 1))"
    by (fastforce simp: on)
  from n(1,2,3,4) a b demo_examples_B demo_run_B(6) show ?thesis by auto
qed

text \<open>
  Claim C1 as stated fails. The \<open>Servo\<close> under \<open>/libs\<close> that an example of \<open>B\<close> imports is
  left out of \<open>Requires\<close>, because the probe had imported the \<open>Servo\<close> of the core before;
  the \<open>Servo\<close> under \<open>/libs\<close> is left out of the \<open>Requires\<close> of the \<open>Servo\<close> of the core,
  because it bears its name; with no "other libraries" folder the run panics and writes
  nothing. The test of the code is not the rule: \<open>Sib\<close> in \<open>/libs2\<close> is written to
  \<open>Requires\<close> without lying under \<open>/libs\<close>.
\<close>

theorem requires_misses_later_namesake:
  "(case mainLoop (demoEnv\<lparr>RunBuilder := twoServos\<rparr>) [''/libs''] False True [libB] demoState of
      Inl a \<Rightarrow> False
    | Inr st' \<Rightarrow> Requires (indexJson st' ! 1) = [] \<and> libServo \<in> set (observed (Log st')))
   \<and> underOtherRoots [''/libs''] libServo
   \<and> RealName libServo \<noteq> RealName libB
   \<and> (case processLibrary (demoEnv\<lparr>RunBuilder := servoPair\<rparr>) [''/libs''] False libServoCore 0
             demoState of
        Inl a \<Rightarrow> False
      | Inr st' \<Rightarrow> Requires (indexJson st' ! 0) = [] \<and> libServo \<in> set (observed (Log st')))
   \<and> libServo \<noteq> libServoCore
   \<and> (case mainLoop demoEnv [] False True [libB] demoState of
        Inl (a, lg) \<Rightarrow> a = Panic
      | Inr st' \<Rightarrow> False)
   \<and> (case mainLoop (demoEnv\<lparr>RunBuilder := siblingFolder\<rparr>) [''/libs''] False False [libB]
             demoState of
        Inl a \<Rightarrow> False
      | Inr st' \<Rightarrow> Requires (indexJson st' ! 1) = [''Sib''])
   \<and> \<not> underOtherRoots [''/libs''] libSib"
  by code_simp

section \<open>The processed cache\<close>





text \<open>
  Claim C8. Processing a library ends, when it ends without a panic, with the cache
  entry of its name set to true, whatever errors the builder returned for the generated
  sketch and the examples; with an "other libraries" folder configured and an
  architecture declared it always ends so. The probes of a library leave the cache as it
  was. When the loop returns, every entry that was true when it started is still true,
  no key of the cache is lost, and every library of the list found in the catalog is
  marked processed.
\<close>

theorem cache_only_grows:
  "(\<forall>st1. processLibrary env other examples library libIndex st = Inr st1 \<longrightarrow>
       previousRun st1 = (previousRun st)(Name library \<mapsto> True))
   \<and> (other \<noteq> [] \<and> Archs library \<noteq> [] \<longrightarrow>
       (\<exists>st1. processLibrary env other examples library libIndex st = Inr st1))
   \<and> (\<forall>st4 deps internal_deps.
         probeLibrary env other examples library st = Inr (st4, deps, internal_deps) \<longrightarrow>
         previousRun st4 = previousRun st)
   \<and> (\<forall>stEnd. mainLoop env other force examples libraries st = Inr stEnd \<longrightarrow>
         (\<forall>k. previousRun st k = Some True \<longrightarrow> previousRun stEnd k = Some True)
         \<and> dom (previousRun st) \<subseteq> dom (previousRun stEnd)
         \<and> (\<forall>l \<in> set libraries. inCatalog (indexJson st) l \<longrightarrow>
               previousRun stEnd (Name l) = Some True))"
proof -
  have a: "\<forall>st1. processLibrary env other examples library libIndex st = Inr st1 \<longrightarrow>
       previousRun st1 = (previousRun st)(Name library \<mapsto> True)"
    using processLibrary_Inr[of env other examples library libIndex st] by blast
  have b: "other \<noteq> [] \<and> Archs library \<noteq> [] \<longrightarrow>
       (\<exists>st1. processLibrary env other examples library libIndex st = Inr st1)"
    using processLibrary_total[of other library env examples libIndex st] by simp
  have c: "\<forall>st4 deps internal_deps.
         probeLibrary env other examples library st = Inr (st4, deps, internal_deps) \<longrightarrow>
         previousRun st4 = previousRun st"
    using probeLibrary_Inr[of env other examples library st] by blast
  have d: "\<forall>stEnd. mainLoop env other force examples libraries st = Inr stEnd \<longrightarrow>
         (\<forall>k. previousRun st k = Some True \<longrightarrow> previousRun stEnd k = Some True)
         \<and> dom (previousRun st) \<subseteq> dom (previousRun stEnd)
         \<and> (\<forall>l \<in> set libraries. inCatalog (indexJson st) l \<longrightarrow>
               previousRun stEnd (Name l) = Some True)"
  proof (intro allI impI)
    fix stEnd assume m: "mainLoop env other force examples libraries st = Inr stEnd"
    from mainLoop_Inr[OF m] obtain new where
      n: "\<forall>k. previousRun st k = Some True \<longrightarrow> previousRun stEnd k = Some True"
         "dom (previousRun st) \<subseteq> dom (previousRun stEnd)"
         "\<forall>library \<in> set libraries. inCatalog (indexJson st) library \<longrightarrow>
                 previousRun stEnd (Name library) = Some True
                 \<and> (force \<longrightarrow> probed env library new)"
      by blast
    from n(3) have "\<forall>l \<in> set libraries. inCatalog (indexJson st) l \<longrightarrow>
               previousRun stEnd (Name l) = Some True"
      by simp
    with n(1,2) show "(\<forall>k. previousRun st k = Some True \<longrightarrow> previousRun stEnd k = Some True)
         \<and> dom (previousRun st) \<subseteq> dom (previousRun stEnd)
         \<and> (\<forall>l \<in> set libraries. inCatalog (indexJson st) l \<longrightarrow>
               previousRun stEnd (Name l) = Some True)"
      by simp
  qed
  from a b c d show ?thesis by simp
qed

lemma demo_cache_B:
  "(case processLibrary demoEnv [''/libs''] True libB 1 demoState of
      Inl a \<Rightarrow> False
    | Inr st1 \<Rightarrow>
        Build ''arduino:avr:micro'' ''/libs/B/examples/Fade/Fade.ino'' [libB]
          (Some ''exit status 1'') \<in> set (Log st1))"
  "Archs libB \<noteq> []"
  "(case mainLoop demoEnv [''/libs''] False True [libA, libServo, libB]
           (demoState\<lparr>previousRun := [''Old'' \<mapsto> True]\<rparr>) of
      Inl a \<Rightarrow> False | Inr stEnd \<Rightarrow> True)"
  "inCatalog (indexJson (demoState\<lparr>previousRun := [''Old'' \<mapsto> True]\<rparr>)) libB"
  "Name libB = ''B''"
  by code_simp+

theorem cache_only_grows_witness:
  "(\<exists>st1. processLibrary demoEnv [''/libs''] True libB 1 demoState = Inr st1
       \<and> previousRun st1 ''B'' = Some True
       \<and> Build ''arduino:avr:micro'' ''/libs/B/examples/Fade/Fade.ino'' [libB]
            (Some ''exit status 1'') \<in> set (Log st1))
   \<and> (\<exists>stEnd. mainLoop demoEnv [''/libs''] False True [libA, libServo, libB]
                  (demoState\<lparr>previousRun := [''Old'' \<mapsto> True]\<rparr>) = Inr stEnd
         \<and> previousRun stEnd ''Old'' = Some True \<and> previousRun stEnd ''B'' = Some True)"
proof -
  let ?st = "demoState\<lparr>previousRun := [''Old'' \<mapsto> True]\<rparr>"
  note t = cache_only_grows[of demoEnv "[''/libs'']" True libB 1 demoState False "[]"]
  have ne: "[''/libs''] \<noteq> ([] :: string list) \<and> Archs libB \<noteq> []"
    using demo_cache_B(2) by simp
  from t ne obtain st1 where p: "processLibrary demoEnv [''/libs''] True libB 1 demoState = Inr st1"
    by blast
  from t p have c: "previousRun st1 = (previousRun demoState)(Name libB \<mapsto> True)"
    by blast
  from p demo_cache_B(1) have b: "Build ''arduino:avr:micro'' ''/libs/B/examples/Fade/Fade.ino''
      [libB] (Some ''exit status 1'') \<in> set (Log st1)"
    by simp
  obtain stEnd where m: "mainLoop demoEnv [''/libs''] False True [libA, libServo, libB] ?st
                           = Inr stEnd"
    using demo_cache_B(3) by (auto split: sum.splits)
  have o: "previousRun ?st ''Old'' = Some True" by simp
  have l: "libB \<in> set [libA, libServo, libB]" by simp
  from cache_only_grows[of demoEnv "[''/libs'']" True libB 1 ?st False "[libA, libServo, libB]"]
       m o l demo_cache_B(4)
  have "previousRun stEnd ''Old'' = Some True \<and> previousRun stEnd (Name libB) = Some True"
    by blast
  with p c b m demo_cache_B(5) show ?thesis by auto
qed

section \<open>The choice of the board\<close>

lemma targetProfile_priority:
  "Archs library \<noteq> [] \<Longrightarrow>
   targetProfile fqbn library = Inr
     (if SliceContains (Archs library) ''esp8266''
        then ''esp8266:esp8266:nodemcuv2:CpuFrequency=80,UploadSpeed=115200,FlashSize=4M3M''
      else if SliceContains (Archs library) ''arc32'' then ''Intel:arc32:arduino_101''
      else if SliceContains (Archs library) ''samd'' then ''arduino:samd:mkr1000''
      else if SliceContains (Archs library) ''sam'' then ''arduino:sam:arduino_due_x_dbg''
      else if Contains (Name library) ''Adafruit'' \<and> Contains (Name library) ''Playground''
        then ''arduino:avr:circuitplay32u4cat''
      else if Contains (Name library) ''Robot''
        then (if Contains (Name library) ''Control''
              then ''arduino:avr:robotControl'' else ''arduino:avr:robotMotor'')
      else if hd (Archs library) = ''*'' \<or> SliceContains (Archs library) ''avr''
        then ''arduino:avr:micro''
      else fqbn)"
  by (cases "Archs library") (simp_all add: targetProfile_def Let_def)

lemma startup_FQBN:
  "startup env fl = Inr (ctx, libraries, st0) \<Longrightarrow> FQBN st0 = ''arduino:avr:uno''"
  by (auto simp: startup_def case_prod_beta split: sum.splits)

text \<open>
  Claim C4, as the code has it. For a library that declares at least one architecture the
  choice of the board returns a board, the one of the last rule that matches in the
  order of the code: \<open>*\<close> as first architecture or \<open>avr\<close> among them, then the names
  with \<open>Robot\<close> (and \<open>Control\<close>), then the names with \<open>Adafruit\<close> and \<open>Playground\<close>, then
  the architectures \<open>sam\<close>, \<open>samd\<close>, \<open>arc32\<close> and \<open>esp8266\<close>. When no rule matches, the
  board is the one \<open>ctx.FQBN\<close> held before: \<open>arduino:avr:uno\<close> when the loop starts,
  afterwards the board chosen for the library processed before. The probe of the library
  is built for the chosen board, and the board stays in \<open>ctx.FQBN\<close> when the library is
  done.
\<close>

theorem board_last_match_wins:
  "(Archs library \<noteq> [] \<longrightarrow>
     targetProfile fqbn library = Inr
       (if SliceContains (Archs library) ''esp8266''
          then ''esp8266:esp8266:nodemcuv2:CpuFrequency=80,UploadSpeed=115200,FlashSize=4M3M''
        else if SliceContains (Archs library) ''arc32'' then ''Intel:arc32:arduino_101''
        else if SliceContains (Archs library) ''samd'' then ''arduino:samd:mkr1000''
        else if SliceContains (Archs library) ''sam'' then ''arduino:sam:arduino_due_x_dbg''
        else if Contains (Name library) ''Adafruit'' \<and> Contains (Name library) ''Playground''
          then ''arduino:avr:circuitplay32u4cat''
        else if Contains (Name library) ''Robot''
          then (if Contains (Name library) ''Control''
                then ''arduino:avr:robotControl'' else ''arduino:avr:robotMotor'')
        else if hd (Archs library) = ''*'' \<or> SliceContains (Archs library) ''avr''
          then ''arduino:avr:micro''
        else fqbn))
   \<and> (\<forall>st1. processLibrary env other examples library libIndex st = Inr st1 \<longrightarrow>
         targetProfile (FQBN st) library = Inr (FQBN st1)
         \<and> (\<exists>imported err. Build (FQBN st1) (sketchOf env library) imported err
               \<in> set (drop (length (Log st)) (Log st1))))
   \<and> (\<forall>ctx libraries st0. startup env fl = Inr (ctx, libraries, st0) \<longrightarrow>
         FQBN st0 = ''arduino:avr:uno'')"
proof -
  have a: "\<forall>st1. processLibrary env other examples library libIndex st = Inr st1 \<longrightarrow>
         targetProfile (FQBN st) library = Inr (FQBN st1)
         \<and> (\<exists>imported err. Build (FQBN st1) (sketchOf env library) imported err
               \<in> set (drop (length (Log st)) (Log st1)))"
  proof (intro allI impI)
    fix st1 assume p: "processLibrary env other examples library libIndex st = Inr st1"
    then obtain st4 deps internal_deps where
      q: "probeLibrary env other examples library st = Inr (st4, deps, internal_deps)"
      and s: "st1 = finalize env library libIndex deps st4"
      by (auto simp: processLibrary_def split: sum.splits)
    from probeLibrary_Inr[OF q] obtain fqbn' new imported err where
      n: "targetProfile (FQBN st) library = Inr fqbn'" "FQBN st4 = fqbn'"
         "Log st4 = Log st @ new"
         "Build fqbn' (sketchOf env library) imported err \<in> set new"
      by blast
    obtain new5 where n5: "Log st1 = Log st4 @ new5"
      using finalize_Log2[of env library libIndex deps st4] unfolding s by blast
    have f: "FQBN st1 = fqbn'" unfolding s using n(2) by (simp add: finalize_fields)
    have "drop (length (Log st)) (Log st1) = new @ new5" using n(3) n5 by simp
    with n(1,4) f show "targetProfile (FQBN st) library = Inr (FQBN st1)
         \<and> (\<exists>imported err. Build (FQBN st1) (sketchOf env library) imported err
               \<in> set (drop (length (Log st)) (Log st1)))"
      by auto
  qed
  from targetProfile_priority[of library fqbn] a startup_FQBN[of env fl]
  show ?thesis by blast
qed

lemma demo_board:
  "Archs (mkLibrary ''Adafruit Circuit Playground'' ''/libs/ACP'' [''avr'', ''samd'']) \<noteq> []"
  "(if SliceContains (Archs (mkLibrary ''Adafruit Circuit Playground'' ''/libs/ACP'' [''avr'', ''samd''])) ''esp8266''
          then ''esp8266:esp8266:nodemcuv2:CpuFrequency=80,UploadSpeed=115200,FlashSize=4M3M''
        else if SliceContains (Archs (mkLibrary ''Adafruit Circuit Playground'' ''/libs/ACP'' [''avr'', ''samd''])) ''arc32'' then ''Intel:arc32:arduino_101''
        else if SliceContains (Archs (mkLibrary ''Adafruit Circuit Playground'' ''/libs/ACP'' [''avr'', ''samd''])) ''samd'' then ''arduino:samd:mkr1000''
        else ''other'') = ''arduino:samd:mkr1000''"
  "(case processLibrary demoEnv [''/libs''] False libB 1 demoState of
      Inl a \<Rightarrow> False | Inr st1 \<Rightarrow> True)"
  "targetProfile (FQBN demoState) libB = Inr ''arduino:avr:micro''"
  by code_simp+

theorem board_last_match_wins_witness:
  "targetProfile ''arduino:avr:uno''
      (mkLibrary ''Adafruit Circuit Playground'' ''/libs/ACP'' [''avr'', ''samd''])
     = Inr ''arduino:samd:mkr1000''
   \<and> (\<exists>st1. processLibrary demoEnv [''/libs''] False libB 1 demoState = Inr st1
         \<and> FQBN st1 = ''arduino:avr:micro'')"
proof -
  obtain st1 where p: "processLibrary demoEnv [''/libs''] False libB 1 demoState = Inr st1"
    using demo_board(3) by (auto split: sum.splits)
  from board_last_match_wins[of libB "''x''" demoEnv "[''/libs'']" False 1 demoState demoFlags] p
       demo_board(4)
  have f: "FQBN st1 = ''arduino:avr:micro''" by simp
  from board_last_match_wins
         [of "mkLibrary ''Adafruit Circuit Playground'' ''/libs/ACP'' [''avr'', ''samd'']"
             "''arduino:avr:uno''" demoEnv "[''/libs'']" False 1 demoState demoFlags]
       demo_board(1)
  have "targetProfile ''arduino:avr:uno''
      (mkLibrary ''Adafruit Circuit Playground'' ''/libs/ACP'' [''avr'', ''samd''])
     = Inr ''arduino:samd:mkr1000''"
    by (simp add: mkLibrary_def)
  with p f show ?thesis by blast
qed

text \<open>
  Claim C4 as stated fails. A library with no architecture makes the choice panic, so
  it has a failure condition; and no default comes first for each library: a library
  that no rule matches, processed after a library for \<open>sam\<close>, is probed for the board of
  that library.
\<close>

theorem board_panics_or_is_left_over:
  "targetProfile ''arduino:avr:uno'' (mkLibrary ''X'' ''/libs/X'' []) = Inl Panic
   \<and> (case processLibrary demoEnv [''/libs''] False (mkLibrary ''Due'' ''/libs/Due'' [''sam'']) 0
             demoState of
        Inl a \<Rightarrow> False
      | Inr st1 \<Rightarrow>
          (case processLibrary demoEnv [''/libs''] False
                  (mkLibrary ''Stm'' ''/libs/Stm'' [''stm32'']) 1 st1 of
             Inl a \<Rightarrow> False
           | Inr st2 \<Rightarrow>
               FQBN st2 = ''arduino:sam:arduino_due_x_dbg''
               \<and> Build ''arduino:sam:arduino_due_x_dbg'' ''/tmp/sketchStm/sketch.ino'' [libB]
                    (Some ''exit status 1'') \<in> set (Log st2)))"
  by code_simp

end
